theory Spec2Isabelle
  imports Complex_Main "HOL-Library.Log_Nat" "HOL-Library.Word"
begin

section \<open>JavaScript numbers\<close>

text \<open>
  Every number of \<open>index.js\<close> is an IEEE 754 binary64 value. A finite one is modelled
  by the rational it denotes; an arithmetic operation is the exact operation followed by
  \<open>fl\<close>, rounding to the nearest binary64 value, ties to the even significand, with
  an unbounded exponent. The SOL amounts of a cycle are computed from a 64-bit number of
  lamports and from literals of the source and stay far below \<open>2\<^sup>1\<^sup>0\<^sup>2\<^sup>4\<close>; they are
  values of type \<open>number\<close>. A token amount is whatever \<open>parseFloat\<close> makes of a string,
  and the statistics are running sums: these are values of type \<open>jsnum\<close>, which has
  \<open>NaN\<close> and the infinities, and their operations overflow (\<open>js_round\<close>).
\<close>

type_synonym number = rat

definition round_half_even :: "rat \<Rightarrow> int" where
  "round_half_even x =
     (let f = \<lfloor>x\<rfloor>; d = x - of_int f
      in if d < 1 / 2 then f else if 1 / 2 < d then f + 1
         else if even f then f else f + 1)"

definition pow2 :: "int \<Rightarrow> rat" where
  "pow2 e = (if 0 \<le> e then 2 ^ nat e else 1 / 2 ^ nat (- e))"

text \<open>For \<open>0 < x\<close>, \<open>binade x\<close> is the exponent \<open>e\<close> with \<open>2\<^sup>e \<le> x < 2\<^sup>e\<^sup>+\<^sup>1\<close>.\<close>

definition binade :: "rat \<Rightarrow> int" where
  "binade x =
     (let d = bitlen (fst (quotient_of x)) - bitlen (snd (quotient_of x))
      in if pow2 d \<le> x then d else d - 1)"

text \<open>The spacing of binary64 values around \<open>x\<close>: 53 significant bits, subnormals below \<open>2\<^sup>-\<^sup>1\<^sup>0\<^sup>2\<^sup>2\<close>.\<close>

definition ulp :: "rat \<Rightarrow> rat" where
  "ulp x = pow2 (max (binade \<bar>x\<bar> - 52) (- 1074))"

definition fl :: "rat \<Rightarrow> number" where
  "fl x = (if x = 0 then 0
           else sgn x * (of_int (round_half_even (\<bar>x\<bar> / ulp x)) * ulp x))"

definition js_sub :: "number \<Rightarrow> number \<Rightarrow> number" where
  "js_sub x y = fl (x - y)"

definition js_div :: "number \<Rightarrow> number \<Rightarrow> number" where
  "js_div x y = fl (x / y)"

text \<open>A decimal literal of the source denotes the binary64 value nearest to it.\<close>

definition lit_0_005 :: number where
  "lit_0_005 = fl (5 / 1000)"

definition lit_0_001 :: number where
  "lit_0_001 = fl (1 / 1000)"

definition lit_1e9 :: number where
  "lit_1e9 = fl 1000000000"

text \<open>
  A 64-bit number of lamports read as a JavaScript number, as the JSON decoding of the
  RPC client yields it.
\<close>

definition number_of_u64 :: "64 word \<Rightarrow> number" where
  "number_of_u64 a = fl (of_nat (unat a))"

definition Math_max :: "number \<Rightarrow> number \<Rightarrow> number" where
  "Math_max x y = max x y"

text \<open>
  A number that may also be \<open>NaN\<close> or infinite. \<open>0\<close> is the number zero, so that
  \<open>return 0\<close> and \<open>tokenBalance === 0\<close> read as in the source.
\<close>

datatype jsnum = Fin number | PosInfinity | NegInfinity | NaN

instantiation jsnum :: zero
begin

definition zero_jsnum :: jsnum where
  "zero_jsnum = Fin 0"

instance ..

end

text \<open>
  \<open>CONFIG.MIN_SOL_BALANCE\<close> is \<open>parseFloat\<close> of an environment string, so it may also
  be \<open>NaN\<close> or infinite. \<open>js_lt\<close> is \<open>solBalance < CONFIG.MIN_SOL_BALANCE\<close> with a
  finite left operand.
\<close>

fun js_lt :: "number \<Rightarrow> jsnum \<Rightarrow> bool" where
  "js_lt x (Fin m) = (x < m)"
| "js_lt x PosInfinity = True"
| "js_lt x NegInfinity = False"
| "js_lt x NaN = False"

text \<open>
  The result of an operation whose exact value is \<open>x\<close>: the nearest binary64 value,
  and an infinity when that lies beyond the largest finite one, \<open>2\<^sup>1\<^sup>0\<^sup>2\<^sup>4 - 2\<^sup>9\<^sup>7\<^sup>1\<close>.
\<close>

definition js_round :: "rat \<Rightarrow> jsnum" where
  "js_round x =
     (if 2 ^ 1024 \<le> fl x then PosInfinity
      else if fl x \<le> - (2 ^ 1024) then NegInfinity
      else Fin (fl x))"

text \<open>\<open>x + y\<close> on numbers, as in \<open>this.stats.totalBurns++\<close> and \<open>+=\<close>.\<close>

fun js_plus :: "jsnum \<Rightarrow> jsnum \<Rightarrow> jsnum" where
  "js_plus (Fin x) (Fin y) = js_round (x + y)"
| "js_plus NaN y = NaN"
| "js_plus x NaN = NaN"
| "js_plus PosInfinity NegInfinity = NaN"
| "js_plus NegInfinity PosInfinity = NaN"
| "js_plus PosInfinity y = PosInfinity"
| "js_plus x PosInfinity = PosInfinity"
| "js_plus NegInfinity y = NegInfinity"
| "js_plus x NegInfinity = NegInfinity"

text \<open>
  The \<open>amount\<close> string of the answer to \<open>getTokenAccountBalance\<close>, by what
  \<open>parseFloat\<close> finds at its start: a decimal numeral, with its value, or none. The
  ledger reports the raw number \<open>n\<close> of token units, \<open>Decimal (of_nat n)\<close>; a numeral may
  also have a fraction, an exponent and a sign, and the string \<open>Infinity\<close> reads as a
  numeral beyond the binary64 range does. \<open>parseFloat\<close> rounds the numeral to binary64
  and yields \<open>NaN\<close> when there is none.
\<close>

datatype amount_string = Decimal rat | NonNumeric

fun parseFloat :: "amount_string \<Rightarrow> jsnum" where
  "parseFloat (Decimal q) = js_round q"
| "parseFloat NonNumeric = NaN"

declare parseFloat.simps [simp del]

fun Math_floor :: "jsnum \<Rightarrow> jsnum" where
  "Math_floor (Fin x) = Fin (of_int \<lfloor>x\<rfloor>)"
| "Math_floor PosInfinity = PosInfinity"
| "Math_floor NegInfinity = NegInfinity"
| "Math_floor NaN = NaN"

section \<open>Thrown values, completions and the event trace\<close>

text \<open>
  What a \<open>throw\<close> carries: an \<open>Error\<close> object with its message, a non-nullish value
  without a \<open>message\<close> property, or \<open>null\<close>/\<open>undefined\<close>. Reading \<open>error.message\<close>
  in a \<open>catch\<close> block throws a \<open>TypeError\<close> on the last.
\<close>

datatype thrown = ErrorObj string | NoMessage | Nullish

definition TypeError :: thrown where
  "TypeError = ErrorObj ''Cannot read properties of null''"

fun message :: "thrown \<Rightarrow> thrown + string" where
  "message (ErrorObj m) = Inr m"
| "message NoMessage = Inr ''undefined''"
| "message Nullish = Inl TypeError"

text \<open>
  \<open>BigInt(x)\<close> of a number: the integer \<open>x\<close> itself; a \<open>RangeError\<close> is thrown when
  \<open>x\<close> is not an integer, \<open>NaN\<close> and the infinities included. The wording of the
  messages of the two built-in errors is the engine's; a fixed text stands for each.
\<close>

definition RangeError :: thrown where
  "RangeError = ErrorObj ''The number cannot be converted to a BigInt because it is not an integer''"

fun BigInt :: "jsnum \<Rightarrow> thrown + int" where
  "BigInt (Fin x) = (if of_int \<lfloor>x\<rfloor> = x then Inr \<lfloor>x\<rfloor> else Inl RangeError)"
| "BigInt PosInfinity = Inl RangeError"
| "BigInt NegInfinity = Inl RangeError"
| "BigInt NaN = Inl RangeError"

datatype 'a completion = Return 'a | Throw thrown | Exit nat

datatype level = Info | Error | Success

datatype logmsg =
    Separator
  | StartingCycle
  | CurrentBalance number
  | BalanceTooLow jsnum
  | NotEnoughAfterFee
  | AttemptingBuy number
  | BuySuccessful string
  | BuyFailed string
  | BuyFailedSkippingBurn
  | NoTokensToBurn
  | Burning jsnum
  | Burned jsnum string
  | BurnFailed string
  | CriticalBoughtNotBurned
  | CycleComplete
  | SolSpent number
  | TokensBurned jsnum
  | TotalBurns jsnum
  | TotalBurned jsnum
  | FailedToGetBalance string
  | CriticalError string

datatype bot_method = M_getBalance | M_getTokenBalance | M_buyTokens number | M_burnTokens

datatype extcall =
    New_Connection
  | Bs58_decode
  | Keypair_fromSecretKey
  | New_PublicKey
  | Connection_getBalance
  | Fetch_trade_local number
  | Response_text
  | Response_arrayBuffer
  | Transaction_from
  | Transaction_sign
  | SendRawTransaction
  | ConfirmTransaction string
  | GetAssociatedTokenAddress
  | GetTokenAccountBalance
  | CreateBurnInstruction int
  | GetLatestBlockhash

datatype event =
    Invoked bot_method
  | External extcall
  | Raised thrown
  | Logged level logmsg
  | ConsoleError
  | Slept nat

record statistics =
  totalBurns :: jsnum
  totalTokensBurned :: jsnum
  totalSolSpent :: jsnum
  startTime :: nat
  lastBurnTime :: "nat option"

text \<open>
  The mutable part of a \<open>BurnBot\<close>: \<open>this.stats\<close>, and (as a history variable) the
  sequence of method invocations, external calls, throws, log lines and delays so far.
  \<open>this.connection\<close>, \<open>this.wallet\<close> and \<open>this.tokenMint\<close> are set once by the
  constructor and only passed on to the libraries.
\<close>

record bot =
  stats :: statistics
  trace :: "event list"

type_synonym 'a io = "bot \<Rightarrow> 'a completion \<times> bot"

definition io_return :: "'a \<Rightarrow> 'a io" where
  "io_return a s = (Return a, s)"

definition io_throw :: "thrown \<Rightarrow> 'a io" where
  "io_throw e s = (Throw e, s)"

definition exit_process :: "nat \<Rightarrow> 'a io" where
  "exit_process n s = (Exit n, s)"

definition io_bind :: "'a io \<Rightarrow> ('a \<Rightarrow> 'b io) \<Rightarrow> 'b io" where
  "io_bind m f s =
     (case m s of
        (Return a, s') \<Rightarrow> f a s'
      | (Throw e, s') \<Rightarrow> (Throw e, s')
      | (Exit n, s') \<Rightarrow> (Exit n, s'))"

definition io_seq :: "unit io \<Rightarrow> 'b io \<Rightarrow> 'b io" where
  "io_seq m k = io_bind m (\<lambda>_. k)"

definition try_catch :: "'a io \<Rightarrow> (thrown \<Rightarrow> 'a io) \<Rightarrow> 'a io" where
  "try_catch m h s =
     (case m s of
        (Return a, s') \<Rightarrow> (Return a, s')
      | (Throw e, s') \<Rightarrow> h e s'
      | (Exit n, s') \<Rightarrow> (Exit n, s'))"

definition emit :: "event \<Rightarrow> unit io" where
  "emit ev s = (Return (), s\<lparr>trace := trace s @ [ev]\<rparr>)"

definition emit_all :: "event list \<Rightarrow> unit io" where
  "emit_all evs s = (Return (), s\<lparr>trace := trace s @ evs\<rparr>)"

text \<open>A \<open>throw\<close>; the trace keeps what was thrown.\<close>

definition raise :: "thrown \<Rightarrow> 'a io" where
  "raise e = io_seq (emit (Raised e)) (io_throw e)"

text \<open>An expression that yields a value or throws.\<close>

definition result_of :: "thrown + 'a \<Rightarrow> 'a io" where
  "result_of r = (case r of Inl e \<Rightarrow> raise e | Inr a \<Rightarrow> io_return a)"

text \<open>An external call: it is recorded, then returns or throws as the environment decides.\<close>

definition ext :: "extcall \<Rightarrow> thrown + 'a \<Rightarrow> 'a io" where
  "ext c r = io_seq (emit (External c)) (case r of Inl e \<Rightarrow> raise e | Inr a \<Rightarrow> io_return a)"

text \<open>
  \<open>this.log(message, type)\<close>: one line on the console. Writing to the console does not
  throw, nor do the formatting of a number and the library calls that only build a value
  (\<open>publicKey.toString()\<close>, \<open>JSON.stringify\<close>, \<open>new Transaction().add\<close>).
\<close>

definition bot_log :: "logmsg \<Rightarrow> level \<Rightarrow> unit io" where
  "bot_log m t = emit (Logged t m)"

text \<open>\<open>error.message\<close> inside a \<open>catch\<close> block.\<close>

definition message_of :: "thrown \<Rightarrow> string io" where
  "message_of e = (case message e of Inl t \<Rightarrow> raise t | Inr m \<Rightarrow> io_return m)"

definition sleep :: "nat \<Rightarrow> unit io" where
  "sleep ms = emit (Slept ms)"

text \<open>\<open>this.stats.f = ...\<close>, \<open>this.stats.f += ...\<close>: an update of the statistics record.\<close>

definition modify_stats :: "(statistics \<Rightarrow> statistics) \<Rightarrow> unit io" where
  "modify_stats f s = (Return (), s\<lparr>stats := f (stats s)\<rparr>)"

text \<open>Reading \<open>this.stats\<close>.\<close>

definition get_stats :: "statistics io" where
  "get_stats s = (Return (stats s), s)"

section \<open>Configuration and environment\<close>

record config =
  MIN_SOL_BALANCE :: jsnum

text \<open>The response of \<open>fetch\<close>: \<open>ok\<close>, \<open>status\<close>, and what \<open>text()\<close> and \<open>arrayBuffer()\<close> do.\<close>

record response =
  ok :: bool
  status :: nat
  text_body :: "thrown + string"
  arrayBuffer :: "thrown + unit"

text \<open>
  What the environment answers during one cycle, one field per external call of the
  source. Signatures are strings; keys, transactions and byte buffers carry no
  information that the program inspects and are \<open>unit\<close>. \<open>getBalance\<close> answers a
  64-bit number of lamports, \<open>getTokenAccountBalance\<close> the \<open>amount\<close> string.
  \<open>createBurnInstruction\<close> encodes the amount it is given and may refuse it.
  \<open>buy_sign\<close> and \<open>burn_sign\<close> stand for signing and serialising the transaction.
  \<open>getAssociatedTokenAddress\<close> derives an address from the mint and the owner, so both
  of its calls in a cycle have the same outcome. \<open>now\<close> is what \<open>new Date()\<close> gives when
  the statistics are updated.
\<close>

record world =
  rpc_getBalance :: "thrown + 64 word"
  fetch :: "thrown + response"
  transaction_from :: "thrown + unit"
  buy_sign :: "thrown + unit"
  buy_sendRawTransaction :: "thrown + string"
  buy_confirmTransaction :: "thrown + unit"
  getAssociatedTokenAddress :: "thrown + unit"
  rpc_getTokenAccountBalance :: "thrown + amount_string"
  createBurnInstruction :: "int \<Rightarrow> thrown + unit"
  rpc_getLatestBlockhash :: "thrown + unit"
  burn_sign :: "thrown + unit"
  burn_sendRawTransaction :: "thrown + string"
  burn_confirmTransaction :: "thrown + unit"
  now :: nat

text \<open>
  The result objects: \<open>{ success: true, signature }\<close> and \<open>{ success: false, error }\<close> of
  \<open>buyTokens\<close>; \<open>{ success: true, signature, amount }\<close>, \<open>{ success: false }\<close> and
  \<open>{ success: false, error }\<close> of \<open>burnTokens\<close>.
\<close>

datatype buy_result = BuyOk string | BuyFail string

datatype burn_result = BurnOk string jsnum | BurnFail "string option"

text \<open>A number in a template literal: its decimal digits.\<close>

definition digit :: "nat \<Rightarrow> char" where
  "digit n = ''0123456789'' ! n"

fun decimal :: "nat \<Rightarrow> string" where
  "decimal n =
     (if n < 10 then [digit n]
      else decimal (n div 10) @ [digit (n mod 10)])"

declare decimal.simps [simp del]

section \<open>The methods of \<open>BurnBot\<close>\<close>

definition getBalance :: "world \<Rightarrow> number io" where
  "getBalance w =
     io_seq (emit (Invoked M_getBalance))
     (try_catch
        (io_bind (ext Connection_getBalance (rpc_getBalance w)) (\<lambda>balance.
         io_return (js_div (number_of_u64 balance) lit_1e9)))
        (\<lambda>error.
         io_bind (message_of error) (\<lambda>m.
         io_seq (bot_log (FailedToGetBalance m) Error)
         (io_return 0))))"

definition getTokenBalance :: "world \<Rightarrow> jsnum io" where
  "getTokenBalance w =
     io_seq (emit (Invoked M_getTokenBalance))
     (try_catch
        (io_bind (ext GetAssociatedTokenAddress (getAssociatedTokenAddress w)) (\<lambda>tokenAccount.
         io_bind (ext GetTokenAccountBalance (rpc_getTokenAccountBalance w)) (\<lambda>balance.
         io_return (parseFloat balance))))
        (\<lambda>error. io_return 0))"

definition buyTokens :: "world \<Rightarrow> number \<Rightarrow> buy_result io" where
  "buyTokens w solAmount =
     io_seq (emit (Invoked (M_buyTokens solAmount)))
     (try_catch
        (io_seq (bot_log (AttemptingBuy solAmount) Info)
        (io_bind (ext (Fetch_trade_local solAmount) (fetch w)) (\<lambda>response.
         io_seq (if \<not> ok response
                 then io_bind (ext Response_text (text_body response)) (\<lambda>body.
                      raise (ErrorObj (''HTTP '' @ decimal (status response) @ '': '' @ body)))
                 else io_return ())
        (io_bind (ext Response_arrayBuffer (arrayBuffer response)) (\<lambda>data.
         io_bind (ext Transaction_from (transaction_from w)) (\<lambda>tx.
         io_seq (ext Transaction_sign (buy_sign w))
        (io_bind (ext SendRawTransaction (buy_sendRawTransaction w)) (\<lambda>signature.
         io_seq (ext (ConfirmTransaction signature) (buy_confirmTransaction w))
        (io_seq (bot_log (BuySuccessful signature) Success)
        (io_seq (sleep 2000)
        (io_return (BuyOk signature))))))))))))
        (\<lambda>error.
         io_bind (message_of error) (\<lambda>m.
         io_seq (bot_log (BuyFailed m) Error)
         (io_return (BuyFail m)))))"

definition burnTokens :: "world \<Rightarrow> burn_result io" where
  "burnTokens w =
     io_seq (emit (Invoked M_burnTokens))
     (try_catch
        (io_bind (getTokenBalance w) (\<lambda>tokenBalance.
         if tokenBalance = 0
         then io_seq (bot_log NoTokensToBurn Error) (io_return (BurnFail None))
         else
           io_seq (bot_log (Burning tokenBalance) Info)
          (io_bind (ext GetAssociatedTokenAddress (getAssociatedTokenAddress w)) (\<lambda>tokenAccount.
           io_bind (result_of (BigInt (Math_floor tokenBalance))) (\<lambda>amount.
           io_seq (ext (CreateBurnInstruction amount) (createBurnInstruction w amount))
          (io_bind (ext GetLatestBlockhash (rpc_getLatestBlockhash w)) (\<lambda>blockhash.
           io_seq (ext Transaction_sign (burn_sign w))
          (io_bind (ext SendRawTransaction (burn_sendRawTransaction w)) (\<lambda>signature.
           io_seq (ext (ConfirmTransaction signature) (burn_confirmTransaction w))
          (io_seq (bot_log (Burned tokenBalance signature) Success)
          (io_return (BurnOk signature tokenBalance))))))))))))
        (\<lambda>error.
         io_bind (message_of error) (\<lambda>m.
         io_seq (bot_log (BurnFailed m) Error)
         (io_return (BurnFail (Some m))))))"

text \<open>Lines 213 to 216 of \<open>executeCycle\<close>: the four assignments to \<open>this.stats\<close>.\<close>

definition update_stats :: "number \<Rightarrow> jsnum \<Rightarrow> nat \<Rightarrow> unit io" where
  "update_stats buyAmount amount date =
     io_seq (modify_stats (\<lambda>st. st\<lparr>totalBurns := js_plus (totalBurns st) (Fin 1)\<rparr>))
    (io_seq (modify_stats (\<lambda>st. st\<lparr>totalTokensBurned := js_plus (totalTokensBurned st) amount\<rparr>))
    (io_seq (modify_stats (\<lambda>st. st\<lparr>totalSolSpent := js_plus (totalSolSpent st) (Fin buyAmount)\<rparr>))
    (modify_stats (\<lambda>st. st\<lparr>lastBurnTime := Some date\<rparr>))))"

definition log_summary :: "number \<Rightarrow> jsnum \<Rightarrow> unit io" where
  "log_summary buyAmount amount =
     io_seq (bot_log Separator Info)
    (io_seq (bot_log CycleComplete Success)
    (io_seq (bot_log (SolSpent buyAmount) Info)
    (io_seq (bot_log (TokensBurned amount) Info)
    (io_bind get_stats (\<lambda>st.
     io_seq (bot_log (TotalBurns (totalBurns st)) Info)
    (io_seq (bot_log (TotalBurned (totalTokensBurned st)) Info)
    (bot_log Separator Info)))))))"

definition executeCycle :: "config \<Rightarrow> world \<Rightarrow> unit io" where
  "executeCycle cfg w =
     try_catch
       (io_seq (bot_log Separator Info)
       (io_seq (bot_log StartingCycle Info)
       (io_bind (getBalance w) (\<lambda>solBalance.
        io_seq (bot_log (CurrentBalance solBalance) Info)
       (if js_lt solBalance (MIN_SOL_BALANCE cfg)
        then bot_log (BalanceTooLow (MIN_SOL_BALANCE cfg)) Error
        else
          let buyAmount = Math_max (js_sub solBalance lit_0_005) lit_0_001
          in if buyAmount \<le> 0
             then bot_log NotEnoughAfterFee Error
             else
               io_bind (buyTokens w buyAmount) (\<lambda>buyResult.
               case buyResult of
                 BuyFail _ \<Rightarrow> bot_log BuyFailedSkippingBurn Error
               | BuyOk _ \<Rightarrow>
                   io_seq (sleep 3000)
                  (io_bind (burnTokens w) (\<lambda>burnResult.
                   case burnResult of
                     BurnFail _ \<Rightarrow> bot_log CriticalBoughtNotBurned Error
                   | BurnOk _ amount \<Rightarrow>
                       io_seq (update_stats buyAmount amount (now w))
                       (log_summary buyAmount amount)))))))))
       (\<lambda>error.
        io_bind (message_of error) (\<lambda>m.
        io_seq (bot_log (CriticalError m) Error)
        (emit ConsoleError)))"

text \<open>
  The timer of \<open>start\<close>: one cycle at once, then one per tick. The environment of each
  cycle is one element of the list; a completion other than \<open>Return\<close> ends the run.
\<close>

fun run_cycles :: "config \<Rightarrow> world list \<Rightarrow> unit io" where
  "run_cycles cfg [] = io_return ()"
| "run_cycles cfg (w # ws) = io_seq (executeCycle cfg w) (run_cycles cfg ws)"

section \<open>Start-up\<close>

record startup =
  env_CREATOR_PRIVATE_KEY :: "string option"
  env_TOKEN_MINT_ADDRESS :: "string option"
  new_Connection :: "thrown + unit"
  bs58_decode :: "thrown + unit"
  fromSecretKey :: "thrown + unit"
  new_PublicKey :: "thrown + unit"
  clock :: nat

definition loadWallet :: "startup \<Rightarrow> unit io" where
  "loadWallet env =
     try_catch
       (io_bind (ext Bs58_decode (bs58_decode env)) (\<lambda>decoded.
        ext Keypair_fromSecretKey (fromSecretKey env)))
       (\<lambda>error.
        io_seq (emit ConsoleError)
       (io_seq (emit ConsoleError)
       (exit_process 1)))"

definition constructor :: "startup \<Rightarrow> unit io" where
  "constructor env =
     io_seq (ext New_Connection (new_Connection env))
    (io_seq (loadWallet env)
    (io_seq (ext New_PublicKey (new_PublicKey env))
    (modify_stats (\<lambda>_. \<lparr>totalBurns = 0, totalTokensBurned = 0, totalSolSpent = 0,
                         startTime = clock env, lastBurnTime = None\<rparr>))))"

text \<open>\<open>!process.env[key]\<close>: the variable is unset or empty.\<close>

definition missing :: "string option \<Rightarrow> bool" where
  "missing v = (case v of None \<Rightarrow> True | Some x \<Rightarrow> x = [])"

definition validateConfig :: "startup \<Rightarrow> unit io" where
  "validateConfig env =
     (let missing_keys = filter missing [env_CREATOR_PRIVATE_KEY env, env_TOKEN_MINT_ADDRESS env]
      in if length missing_keys > 0
         then io_seq (emit ConsoleError)
             (io_seq (emit_all (map (\<lambda>_. ConsoleError) missing_keys))
             (io_seq (emit ConsoleError)
             (exit_process 1)))
         else io_return ())"

text \<open>\<open>main\<close> up to the construction of the bot; a throw of the constructor reaches
  the \<open>catch\<close> of \<open>main()\<close>, which prints it and exits with status 1.\<close>

definition main_startup :: "startup \<Rightarrow> unit io" where
  "main_startup env =
     try_catch
       (io_seq (validateConfig env) (constructor env))
       (\<lambda>error. io_seq (emit ConsoleError) (exit_process 1))"

section \<open>Observing a run\<close>

text \<open>The events that running \<open>m\<close> from \<open>s\<close> appends to the trace.\<close>

definition events_of :: "'a io \<Rightarrow> bot \<Rightarrow> event list" where
  "events_of m s = drop (length (trace s)) (trace (snd (m s)))"

text \<open>
  How a call of \<open>buyTokens\<close> or \<open>burnTokens\<close> completes and what it appends to the
  trace, read off a run from a fresh state; neither depends on the state of the bot, and
  the completion of \<open>buyTokens\<close> does not depend on the amount.
\<close>

definition buy_outcome :: "world \<Rightarrow> buy_result completion" where
  "buy_outcome w = fst (buyTokens w 0 \<lparr>stats = \<lparr>totalBurns = 0, totalTokensBurned = 0,
     totalSolSpent = 0, startTime = 0, lastBurnTime = None\<rparr>, trace = []\<rparr>)"

definition buy_events :: "world \<Rightarrow> number \<Rightarrow> event list" where
  "buy_events w a = trace (snd (buyTokens w a \<lparr>stats = \<lparr>totalBurns = 0, totalTokensBurned = 0,
     totalSolSpent = 0, startTime = 0, lastBurnTime = None\<rparr>, trace = []\<rparr>))"

definition burn_outcome :: "world \<Rightarrow> burn_result completion" where
  "burn_outcome w = fst (burnTokens w \<lparr>stats = \<lparr>totalBurns = 0, totalTokensBurned = 0,
     totalSolSpent = 0, startTime = 0, lastBurnTime = None\<rparr>, trace = []\<rparr>)"

definition burn_events :: "world \<Rightarrow> event list" where
  "burn_events w = trace (snd (burnTokens w \<lparr>stats = \<lparr>totalBurns = 0, totalTokensBurned = 0,
     totalSolSpent = 0, startTime = 0, lastBurnTime = None\<rparr>, trace = []\<rparr>))"

text \<open>\<open>post m s Q\<close>: the completion and final state of \<open>m\<close> run from \<open>s\<close> satisfy \<open>Q\<close>.\<close>

definition post :: "'a io \<Rightarrow> bot \<Rightarrow> ('a completion \<Rightarrow> bot \<Rightarrow> bool) \<Rightarrow> bool" where
  "post m s Q = (case m s of (c, s') \<Rightarrow> Q c s')"

fun is_buy :: "event \<Rightarrow> bool" where
  "is_buy (Invoked (M_buyTokens a)) = True"
| "is_buy (External (Fetch_trade_local a)) = True"
| "is_buy _ = False"

text \<open>The events by which a transaction is built, signed, sent or confirmed.\<close>

fun is_transaction_step :: "event \<Rightarrow> bool" where
  "is_transaction_step (External (CreateBurnInstruction n)) = True"
| "is_transaction_step (External GetLatestBlockhash) = True"
| "is_transaction_step (External Transaction_from) = True"
| "is_transaction_step (External Transaction_sign) = True"
| "is_transaction_step (External SendRawTransaction) = True"
| "is_transaction_step (External (ConfirmTransaction sg)) = True"
| "is_transaction_step _ = False"


fun is_error_log :: "event \<Rightarrow> bool" where
  "is_error_log (Logged Error m) = True"
| "is_error_log _ = False"

text \<open>
  The four error-level lines that a \<open>catch\<close> block of the cycle writes, each with the
  \<open>message\<close> of what it caught; \<open>error_text\<close> is that message.
\<close>

fun error_text :: "event \<Rightarrow> string option" where
  "error_text (Logged Error (FailedToGetBalance m)) = Some m"
| "error_text (Logged Error (BuyFailed m)) = Some m"
| "error_text (Logged Error (BurnFailed m)) = Some m"
| "error_text (Logged Error (CriticalError m)) = Some m"
| "error_text _ = None"

fun thrown_of :: "event \<Rightarrow> thrown option" where
  "thrown_of (Raised e) = Some e"
| "thrown_of _ = None"

text \<open>
  The event is one of the two calls that \<open>getTokenBalance\<close> makes. (\<open>burnTokens\<close> makes
  the first of them once more, after its line "Burning ...".)
\<close>

definition reads_token_balance :: "event option \<Rightarrow> bool" where
  "reads_token_balance prev =
     (prev = Some (External GetAssociatedTokenAddress) \<or>
      prev = Some (External GetTokenAccountBalance))"

text \<open>
  What follows a throw of \<open>e\<close> at once, \<open>prev\<close> being the event before the throw and
  \<open>es\<close> the events after it. Either the next event is an error-level line of a \<open>catch\<close>
  block with the message of \<open>e\<close>; or \<open>e\<close> is \<open>null\<close> or \<open>undefined\<close> and the next
  event is the throw of the \<open>TypeError\<close> that reading \<open>error.message\<close> causes; or the
  throw came from a call of \<open>getTokenBalance\<close>, whose \<open>catch\<close> block writes nothing,
  and the next event is the line "No tokens to burn" of \<open>burnTokens\<close>.
\<close>

definition answered :: "event option \<Rightarrow> thrown \<Rightarrow> event list \<Rightarrow> bool" where
  "answered prev e es =
     (case es of
        [] \<Rightarrow> False
      | nxt # _ \<Rightarrow>
          (reads_token_balance prev \<and> nxt = Logged Error NoTokensToBurn) \<or>
          (case message e of
             Inr m \<Rightarrow> error_text nxt = Some m
           | Inl t \<Rightarrow> nxt = Raised t))"

text \<open>Every throw in the list is answered; \<open>prev\<close> is the event before the list.\<close>

fun throws_answered :: "event option \<Rightarrow> event list \<Rightarrow> bool" where
  "throws_answered prev [] = True"
| "throws_answered prev (ev # es) =
     ((case thrown_of ev of None \<Rightarrow> True | Some e \<Rightarrow> answered prev e es) \<and>
      throws_answered (Some ev) es)"

text \<open>The literal \<open>0.006\<close>, for the balances whose spend amount is the floor \<open>0.001\<close>.\<close>

definition lit_0_006 :: number where
  "lit_0_006 = fl (6 / 1000)"

section \<open>Sample environments\<close>

definition fresh_bot :: bot where
  "fresh_bot =
     \<lparr>stats = \<lparr>totalBurns = 0, totalTokensBurned = 0, totalSolSpent = 0,
                startTime = 1700000000000, lastBurnTime = None\<rparr>,
      trace = []\<rparr>"

text \<open>The default \<open>MIN_SOL_BALANCE\<close>, \<open>parseFloat('0.005')\<close>.\<close>

definition default_config :: config where
  "default_config = \<lparr>MIN_SOL_BALANCE = Fin lit_0_005\<rparr>"

text \<open>A wallet of 0.01 SOL (10000000 lamports); every call succeeds; 123456 raw token units arrive.\<close>

definition world_success :: world where
  "world_success =
     \<lparr>rpc_getBalance = Inr 10000000,
      fetch = Inr \<lparr>ok = True, status = 200, text_body = Inr [], arrayBuffer = Inr ()\<rparr>,
      transaction_from = Inr (),
      buy_sign = Inr (),
      buy_sendRawTransaction = Inr ''buy-signature'',
      buy_confirmTransaction = Inr (),
      getAssociatedTokenAddress = Inr (),
      rpc_getTokenAccountBalance = Inr (Decimal 123456),
      createBurnInstruction = (\<lambda>amount. Inr ()),
      rpc_getLatestBlockhash = Inr (),
      burn_sign = Inr (),
      burn_sendRawTransaction = Inr ''burn-signature'',
      burn_confirmTransaction = Inr (),
      now = 1700000060000\<rparr>"

definition world_buy_fails :: world where
  "world_buy_fails =
     world_success\<lparr>fetch := Inr \<lparr>ok = False, status = 500, text_body = Inr ''unavailable'',
                                  arrayBuffer = Inr ()\<rparr>\<rparr>"

definition world_burn_fails :: world where
  "world_burn_fails =
     world_success\<lparr>burn_sendRawTransaction := Inl (ErrorObj ''blockhash not found'')\<rparr>"

definition world_no_token_account :: world where
  "world_no_token_account =
     world_success\<lparr>rpc_getTokenAccountBalance := Inl (ErrorObj ''could not find account'')\<rparr>"

text \<open>0.003 SOL.\<close>

definition world_low_balance :: world where
  "world_low_balance = world_success\<lparr>rpc_getBalance := Inr 3000000\<rparr>"

text \<open>0.0055 SOL.\<close>

definition world_small_balance :: world where
  "world_small_balance = world_success\<lparr>rpc_getBalance := Inr 5500000\<rparr>"

text \<open>0.02 SOL, and 9223372036854775808 raw token units arrive, which is \<open>2\<^sup>6\<^sup>3\<close>.\<close>

definition world_first_cycle :: world where
  "world_first_cycle =
     world_success\<lparr>rpc_getBalance := Inr 20000000,
                     rpc_getTokenAccountBalance := Inr (Decimal 9223372036854775808)\<rparr>"

text \<open>The bot after one cycle in \<open>world_first_cycle\<close>.\<close>

definition after_first_cycle :: bot where
  "after_first_cycle = snd (executeCycle default_config world_first_cycle fresh_bot)"

text \<open>A bot that has counted 9007199254740992 burns, which is \<open>2\<^sup>5\<^sup>3\<close>.\<close>

definition bot_many_burns :: bot where
  "bot_many_burns = fresh_bot\<lparr>stats := (stats fresh_bot)\<lparr>totalBurns := Fin 9007199254740992\<rparr>\<rparr>"

text \<open>A balance of 9007199254740995 raw units, which is \<open>2\<^sup>5\<^sup>3 + 3\<close>.\<close>

definition world_large_balance :: world where
  "world_large_balance =
     world_success\<lparr>rpc_getTokenAccountBalance := Inr (Decimal 9007199254740995)\<rparr>"

text \<open>An amount string with a fraction, \<open>1234.5\<close>.\<close>

definition world_fraction :: world where
  "world_fraction = world_success\<lparr>rpc_getTokenAccountBalance := Inr (Decimal (2469 / 2))\<rparr>"

text \<open>An amount string that is not a numeral.\<close>

definition world_not_numeric :: world where
  "world_not_numeric = world_success\<lparr>rpc_getTokenAccountBalance := Inr NonNumeric\<rparr>"

text \<open>The token balance query fails for a reason other than a missing account.\<close>

definition world_rpc_timeout :: world where
  "world_rpc_timeout =
     world_success\<lparr>rpc_getTokenAccountBalance := Inl (ErrorObj ''rpc timeout'')\<rparr>"

text \<open>\<open>fetch\<close> rejects with \<open>undefined\<close>.\<close>

definition world_nullish :: world where
  "world_nullish = world_success\<lparr>fetch := Inl Nullish\<rparr>"

text \<open>Both variables are set, but the key is not base58.\<close>

definition startup_bad_key :: startup where
  "startup_bad_key =
     \<lparr>env_CREATOR_PRIVATE_KEY = Some ''not a key!'',
      env_TOKEN_MINT_ADDRESS = Some ''So11111111111111111111111111111111111111112'',
      new_Connection = Inr (),
      bs58_decode = Inl (ErrorObj ''Non-base58 character''),
      fromSecretKey = Inr (),
      new_PublicKey = Inr (),
      clock = 1700000000000\<rparr>"

section \<open>Rounding to binary64\<close>

lemma pow2_powi: "pow2 e = 2 powi e"
  by (simp add: pow2_def power_int_def inverse_eq_divide power_one_over)

lemma pow2_pos: "0 < pow2 e"
  by (simp add: pow2_powi)

lemma pow2_add: "pow2 (a + b) = pow2 a * pow2 b"
  by (simp add: pow2_powi power_int_add)

lemma pow2_diff: "pow2 (a - b) = pow2 a / pow2 b"
  by (simp add: pow2_powi power_int_diff)

lemma pow2_mono: "a \<le> b \<Longrightarrow> pow2 a \<le> pow2 b"
  by (simp add: pow2_powi power_int_increasing)

lemma pow2_nat: "0 \<le> e \<Longrightarrow> pow2 e = of_int (2 ^ nat e)"
  by (simp add: pow2_def)

lemma binade_unique:
  assumes "pow2 k \<le> x" "x < pow2 (k + 1)" "pow2 e \<le> x" "x < pow2 (e + 1)"
  shows "k = e"
proof (rule ccontr)
  assume "k \<noteq> e"
  then consider "k + 1 \<le> e" | "e + 1 \<le> k" by linarith
  then show False
  proof cases
    case 1
    then have "pow2 (k + 1) \<le> pow2 e" by (rule pow2_mono)
    with assms show False by linarith
  next
    case 2
    then have "pow2 (e + 1) \<le> pow2 k" by (rule pow2_mono)
    with assms show False by linarith
  qed
qed

lemma bitlen_rat_bounds:
  assumes "0 < (a::int)"
  shows "pow2 (bitlen a - 1) \<le> of_int a" "(of_int a :: rat) < pow2 (bitlen a)"
proof -
  from bitlen_bounds[OF assms] have b: "2 ^ nat (bitlen a - 1) \<le> a" "a < 2 ^ nat (bitlen a)" by auto
  have ge1: "1 \<le> bitlen a" using assms by (simp add: bitlen_alt_def)
  have "pow2 (bitlen a - 1) = of_int (2 ^ nat (bitlen a - 1))" using ge1 by (simp add: pow2_nat)
  also have "\<dots> \<le> of_int a" using b(1) by (simp only: of_int_le_iff)
  finally show "pow2 (bitlen a - 1) \<le> of_int a" .
  have "(of_int a :: rat) < of_int (2 ^ nat (bitlen a))" using b(2) by (simp only: of_int_less_iff)
  also have "\<dots> = pow2 (bitlen a)" using ge1 by (simp add: pow2_nat)
  finally show "(of_int a :: rat) < pow2 (bitlen a)" .
qed

lemma binade_bounds:
  assumes "0 < x"
  shows "pow2 (binade x) \<le> x \<and> x < pow2 (binade x + 1)"
proof -
  obtain a b where q: "quotient_of x = (a, b)" by (cases "quotient_of x")
  have bpos: "0 < b" using q by (rule quotient_of_denom_pos)
  have xab: "x = of_int a / of_int b" using q by (rule quotient_of_div)
  have apos: "0 < a" using assms bpos xab by (simp add: zero_less_divide_iff)
  define d where "d = bitlen a - bitlen b"
  note A = bitlen_rat_bounds[OF apos] and B = bitlen_rat_bounds[OF bpos]
  have bq: "(0::rat) < of_int b" using bpos by simp
  have lo: "pow2 (d - 1) \<le> x"
  proof -
    have "pow2 (d - 1) = pow2 (bitlen a - 1) / pow2 (bitlen b)"
      by (simp add: d_def pow2_diff[symmetric] algebra_simps)
    also have "\<dots> \<le> of_int a / pow2 (bitlen b)"
      by (rule divide_right_mono[OF A(1)]) (simp add: pow2_pos less_imp_le)
    also have "\<dots> \<le> of_int a / of_int b"
      using B(2) bq apos by (simp add: frac_le)
    finally show ?thesis by (simp add: xab)
  qed
  have hi: "x < pow2 (d + 1)"
  proof -
    have "x = of_int a / of_int b" by (rule xab)
    also have "\<dots> < pow2 (bitlen a) / of_int b"
      by (rule divide_strict_right_mono[OF A(2) bq])
    also have "\<dots> \<le> pow2 (bitlen a) / pow2 (bitlen b - 1)"
      using B(1) pow2_pos[of "bitlen b - 1"] pow2_pos[of "bitlen a"] by (simp add: frac_le)
    also have "\<dots> = pow2 (d + 1)"
      by (simp add: d_def pow2_diff[symmetric] algebra_simps)
    finally show ?thesis .
  qed
  have bd: "binade x = (if pow2 d \<le> x then d else d - 1)"
    by (simp add: binade_def q d_def Let_def)
  show ?thesis
  proof (cases "pow2 d \<le> x")
    case True
    then show ?thesis using hi bd by simp
  next
    case False
    then show ?thesis using lo bd by simp
  qed
qed

lemma binade_eq:
  assumes "pow2 e \<le> x" "x < pow2 (e + 1)"
  shows "binade x = e"
proof -
  have "0 < x" using assms(1) pow2_pos[of e] by linarith
  from binade_bounds[OF this] assms show ?thesis
    using binade_unique by blast
qed

lemma binade_mono:
  assumes "0 < x" "x \<le> y"
  shows "binade x \<le> binade y"
proof (rule ccontr)
  assume "\<not> binade x \<le> binade y"
  then have "binade y + 1 \<le> binade x" by simp
  then have "pow2 (binade y + 1) \<le> pow2 (binade x)" by (rule pow2_mono)
  moreover have "0 < y" using assms by linarith
  ultimately show False
    using binade_bounds[OF assms(1)] binade_bounds[OF \<open>0 < y\<close>] assms(2) by linarith
qed


lemma round_half_even_of_int: "round_half_even (of_int n) = n"
  by (simp add: round_half_even_def)

lemma round_half_even_range: "\<lfloor>x\<rfloor> \<le> round_half_even x \<and> round_half_even x \<le> \<lfloor>x\<rfloor> + 1"
  by (simp add: round_half_even_def Let_def)

lemma round_half_even_mono:
  assumes "x \<le> y"
  shows "round_half_even x \<le> round_half_even y"
proof (cases "\<lfloor>x\<rfloor> = \<lfloor>y\<rfloor>")
  case True
  with assms show ?thesis
    by (auto simp add: round_half_even_def Let_def)
next
  case False
  moreover have "\<lfloor>x\<rfloor> \<le> \<lfloor>y\<rfloor>" using assms by (rule floor_mono)
  ultimately have "\<lfloor>x\<rfloor> + 1 \<le> \<lfloor>y\<rfloor>" by linarith
  with round_half_even_range[of x] round_half_even_range[of y] show ?thesis by linarith
qed

lemma round_half_even_le: "x \<le> of_int n \<Longrightarrow> round_half_even x \<le> n"
  using round_half_even_mono[of x "of_int n"] by (simp add: round_half_even_of_int)

lemma round_half_even_ge: "of_int n \<le> x \<Longrightarrow> n \<le> round_half_even x"
  using round_half_even_mono[of "of_int n" x] by (simp add: round_half_even_of_int)

lemma ulp_pos: "0 < ulp x"
  by (simp add: ulp_def pow2_pos)

lemma fl_pos_eq: "0 < x \<Longrightarrow> fl x = of_int (round_half_even (x / ulp x)) * ulp x"
  by (simp add: fl_def)

lemma fl_neg: "fl (- x) = - fl x"
  by (simp add: fl_def ulp_def)

lemma fl_nonneg:
  assumes "0 \<le> x"
  shows "0 \<le> fl x"
proof (cases "x = 0")
  case True
  then show ?thesis by (simp add: fl_def)
next
  case False
  with assms have x: "0 < x" by simp
  have "0 \<le> x / ulp x" using x ulp_pos[of x] by simp
  then have "0 \<le> round_half_even (x / ulp x)"
    using round_half_even_ge[of 0 "x / ulp x"] by simp
  then show ?thesis using ulp_pos[of x] by (simp add: fl_pos_eq[OF x])
qed

lemma fl_mono_pos:
  assumes x: "0 < x" and xy: "x \<le> y"
  shows "fl x \<le> fl y"
proof -
  have y: "0 < y" using x xy by linarith
  define ex ey where "ex = binade x" and "ey = binade y"
  define kx ky where "kx = max (ex - 52) (- 1074)" and "ky = max (ey - 52) (- 1074)"
  have ux: "ulp x = pow2 kx" and uy: "ulp y = pow2 ky"
    using x y by (simp_all add: ulp_def kx_def ky_def ex_def ey_def)
  have exy: "ex \<le> ey" unfolding ex_def ey_def using x xy by (rule binade_mono)
  then have kxy: "kx \<le> ky" by (simp add: kx_def ky_def)
  have bx: "pow2 ex \<le> x" "x < pow2 (ex + 1)" using binade_bounds[OF x] by (simp_all add: ex_def)
  have bnd: "pow2 ey \<le> y" "y < pow2 (ey + 1)" using binade_bounds[OF y] by (simp_all add: ey_def)
  show ?thesis
  proof (cases "kx = ky")
    case True
    have "x / pow2 kx \<le> y / pow2 kx" using xy pow2_pos[of kx] by (simp add: divide_right_mono)
    then have "round_half_even (x / pow2 kx) \<le> round_half_even (y / pow2 kx)"
      by (rule round_half_even_mono)
    then have "(of_int (round_half_even (x / pow2 kx)) :: rat) * pow2 kx
                 \<le> of_int (round_half_even (y / pow2 kx)) * pow2 kx"
      using pow2_pos[of kx] by (simp add: mult_right_mono)
    then show ?thesis using True by (simp add: fl_pos_eq[OF x] fl_pos_eq[OF y] ux uy)
  next
    case False
    with kxy have lt: "kx < ky" by simp
    then have ky_eq: "ky = ey - 52" and ex_lt: "ex < ey" by (auto simp add: kx_def ky_def)
    have lower: "pow2 ey \<le> fl y"
    proof -
      have "pow2 52 = pow2 ey / pow2 ky" by (simp add: ky_eq pow2_diff[symmetric])
      also have "\<dots> \<le> y / pow2 ky" using bnd(1) pow2_pos[of ky] by (simp add: divide_right_mono)
      finally have "of_int (2 ^ 52) \<le> y / pow2 ky" by (simp add: pow2_def)
      then have "2 ^ 52 \<le> round_half_even (y / pow2 ky)" by (rule round_half_even_ge)
      then have "(of_int (2 ^ 52) :: rat) \<le> of_int (round_half_even (y / pow2 ky))"
        by (simp only: of_int_le_iff)
      then have "(of_int (2 ^ 52) :: rat) * pow2 ky \<le> of_int (round_half_even (y / pow2 ky)) * pow2 ky"
        using pow2_pos[of ky] by (simp only: mult_le_cancel_right_pos)
      moreover have "(of_int (2 ^ 52) :: rat) * pow2 ky = pow2 ey"
      proof -
        have p52: "pow2 52 = (of_int (2 ^ 52) :: rat)" by (simp add: pow2_def)
        have "pow2 52 * pow2 (ey - 52) = pow2 ey" unfolding pow2_add[symmetric] by simp
        then show ?thesis unfolding p52 ky_eq .
      qed
      ultimately show ?thesis by (simp add: fl_pos_eq[OF y] uy)
    qed
    have upper: "fl x \<le> pow2 ey"
    proof -
      define j where "j = max (ex + 1 - kx) 0"
      have j0: "0 \<le> j" by (simp add: j_def)
      have "x / pow2 kx \<le> pow2 (ex + 1) / pow2 kx"
        using bx(2) pow2_pos[of kx] by (simp add: divide_right_mono)
      also have "\<dots> = pow2 (ex + 1 - kx)" by (simp add: pow2_diff)
      also have "\<dots> \<le> pow2 j" by (rule pow2_mono) (simp add: j_def)
      also have "\<dots> = of_int (2 ^ nat j)" using j0 by (rule pow2_nat)
      finally have "round_half_even (x / pow2 kx) \<le> 2 ^ nat j" by (rule round_half_even_le)
      then have "(of_int (round_half_even (x / pow2 kx)) :: rat) \<le> of_int (2 ^ nat j)"
        by (simp only: of_int_le_iff)
      then have "(of_int (round_half_even (x / pow2 kx)) :: rat) * pow2 kx \<le> of_int (2 ^ nat j) * pow2 kx"
        using pow2_pos[of kx] by (simp only: mult_le_cancel_right_pos)
      also have "(of_int (2 ^ nat j) :: rat) * pow2 kx = pow2 (j + kx)"
        using pow2_nat[OF j0] by (simp add: pow2_add)
      also have "\<dots> \<le> pow2 ey"
        by (rule pow2_mono) (use ex_lt lt ky_eq in \<open>simp add: j_def\<close>)
      finally show ?thesis by (simp add: fl_pos_eq[OF x] ux)
    qed
    from upper lower show ?thesis by linarith
  qed
qed

lemma fl_mono:
  assumes "x \<le> y"
  shows "fl x \<le> fl y"
proof -
  consider "0 < x" | "x \<le> 0" "0 \<le> y" | "y < 0" by linarith
  then show ?thesis
  proof cases
    case 1
    then show ?thesis using assms by (rule fl_mono_pos)
  next
    case 2
    have "0 \<le> fl (- x)" using 2(1) by (intro fl_nonneg) simp
    then have "fl x \<le> 0" by (simp add: fl_neg)
    moreover have "0 \<le> fl y" using 2(2) by (rule fl_nonneg)
    ultimately show ?thesis by linarith
  next
    case 3
    then have "0 < - y" "- y \<le> - x" using assms by simp_all
    then have "fl (- y) \<le> fl (- x)" by (rule fl_mono_pos)
    then show ?thesis by (simp add: fl_neg)
  qed
qed

lemma fl_eval:
  assumes "pow2 e \<le> x" "x < pow2 (e + 1)" "- 1022 \<le> e"
  shows "fl x = of_int (round_half_even (x / pow2 (e - 52))) * pow2 (e - 52)"
proof -
  have x: "0 < x" using assms(1) pow2_pos[of e] by linarith
  have "binade x = e" using assms(1,2) by (rule binade_eq)
  moreover have "max (e - 52) (- 1074) = e - 52" using assms(3) by simp
  ultimately have "ulp x = pow2 (e - 52)" using x by (simp add: ulp_def)
  then show ?thesis by (simp add: fl_pos_eq[OF x])
qed

lemma fl_representable:
  assumes m: "0 < m" "m < 2 ^ 53" and k: "- 1074 \<le> k"
  shows "fl (of_int m * pow2 k) = of_int m * pow2 k"
proof -
  define x where "x = (of_int m :: rat) * pow2 k"
  have x: "0 < x" using m(1) pow2_pos[of k] by (simp add: x_def)
  define ku where "ku = max (binade x - 52) (- 1074)"
  have u: "ulp x = pow2 ku" using x by (simp add: ulp_def ku_def)
  have "(of_int m :: rat) < of_int (2 ^ 53)" using m(2) by (simp only: of_int_less_iff)
  then have "(of_int m :: rat) < pow2 53" by (simp add: pow2_def)
  then have "x < pow2 53 * pow2 k" using pow2_pos[of k] by (simp add: x_def)
  then have "x < pow2 (53 + k)" by (simp add: pow2_add)
  with binade_bounds[OF x] have "pow2 (binade x) < pow2 (53 + k)" by linarith
  then have "binade x < 53 + k"
    using pow2_mono[of "53 + k" "binade x"] by (cases "binade x < 53 + k") auto
  then have le: "ku \<le> k" using k by (simp add: ku_def)
  have "x / pow2 ku = of_int m * pow2 (k - ku)" by (simp add: x_def pow2_diff)
  also have "\<dots> = of_int (m * 2 ^ nat (k - ku))" using le by (simp add: pow2_nat)
  finally have q: "x / pow2 ku = of_int (m * 2 ^ nat (k - ku))" .
  have "fl x = of_int (m * 2 ^ nat (k - ku)) * pow2 ku"
    by (simp only: fl_pos_eq[OF x] u q round_half_even_of_int)
  also have "\<dots> = of_int m * (pow2 (k - ku) * pow2 ku)" using le by (simp add: pow2_nat)
  also have "\<dots> = x" by (simp add: x_def pow2_add[symmetric])
  finally show ?thesis by (simp add: x_def)
qed


lemma floor_rat_numeral: "\<lfloor>numeral a / numeral b :: rat\<rfloor> = numeral a div numeral b"
  by (metis floor_divide_of_int_eq of_int_numeral)

lemmas fl_compute = pow2_def round_half_even_def Let_def floor_rat_numeral

lemma fl_of_nat:
  assumes "n < 2 ^ 53"
  shows "fl (of_nat n) = of_nat n"
proof (cases "n = 0")
  case True
  then show ?thesis by (simp add: fl_def)
next
  case False
  then have "0 < int n" by simp
  moreover have "int n < 2 ^ 53"
  proof -
    have "int n < int (2 ^ 53)" using assms by (simp only: of_nat_less_iff)
    then show ?thesis by (simp only: of_nat_power of_nat_numeral)
  qed
  ultimately have "fl (of_int (int n) * pow2 0) = of_int (int n) * pow2 0"
    by (rule fl_representable) simp
  then show ?thesis by (simp add: pow2_def)
qed

subsection \<open>The literals and balances used below\<close>

lemma lit_0_005_value: "lit_0_005 = 5764607523034235 / 1152921504606846976"
  unfolding lit_0_005_def
  using fl_eval[of "- 8" "5 / 1000"]
  by (simp add: fl_compute)

lemma lit_0_001_value: "lit_0_001 = 1152921504606847 / 1152921504606846976"
  unfolding lit_0_001_def
  using fl_eval[of "- 10" "1 / 1000"]
  by (simp add: fl_compute)

lemma lit_0_006_value: "lit_0_006 = 3458764513820541 / 576460752303423488"
  unfolding lit_0_006_def
  using fl_eval[of "- 8" "6 / 1000"]
  by (simp add: fl_compute)

lemma lit_1e9_value: "lit_1e9 = 1000000000"
  unfolding lit_1e9_def
  using fl_of_nat[of 1000000000]
  by simp

lemma lit_0_001_pos: "0 < lit_0_001"
  by (simp add: lit_0_001_value)

text \<open>\<open>0.006 - 0.005\<close> is \<open>0.001\<close>, exactly.\<close>

lemma lit_0_006_minus_lit_0_005: "lit_0_006 - lit_0_005 = lit_0_001"
  by (simp add: lit_0_006_value lit_0_005_value lit_0_001_value)

lemma fl_lit_0_001: "fl lit_0_001 = lit_0_001"
  unfolding lit_0_001_value
  using fl_representable[of 1152921504606847 "- 60"]
  by (simp add: pow2_def)

lemma fl_lit_0_005: "fl lit_0_005 = lit_0_005"
  unfolding lit_0_005_value
  using fl_representable[of 5764607523034235 "- 60"]
  by (simp add: pow2_def)

lemma number_of_u64_exact: "unat a < 2 ^ 53 \<Longrightarrow> number_of_u64 a = of_nat (unat a)"
  unfolding number_of_u64_def by (rule fl_of_nat)

text \<open>10000000 lamports are 0.01 SOL, 3000000 are 0.003 and 5500000 are 0.0055.\<close>

lemma balance_0_01:
  "js_div (number_of_u64 10000000) lit_1e9 = 5764607523034235 / 576460752303423488"
  unfolding js_div_def lit_1e9_value
  using fl_eval[of "- 7" "10000000 / 1000000000"]
  by (simp add: number_of_u64_exact fl_compute)

lemma balance_0_003:
  "js_div (number_of_u64 3000000) lit_1e9 = 3458764513820541 / 1152921504606846976"
  unfolding js_div_def lit_1e9_value
  using fl_eval[of "- 9" "3000000 / 1000000000"]
  by (simp add: number_of_u64_exact fl_compute)

lemma balance_0_0055:
  "js_div (number_of_u64 5500000) lit_1e9 = 3170534137668829 / 576460752303423488"
  unfolding js_div_def lit_1e9_value
  using fl_eval[of "- 8" "5500000 / 1000000000"]
  by (simp add: number_of_u64_exact fl_compute)

text \<open>\<open>0.01 - 0.005\<close> is \<open>0.005\<close>.\<close>

lemma js_sub_0_01: "js_sub (5764607523034235 / 576460752303423488) lit_0_005 = lit_0_005"
  unfolding js_sub_def
  using fl_lit_0_005
  by (simp add: lit_0_005_value)

text \<open>\<open>fl x\<close> is within half a unit in the last place of \<open>x\<close>.\<close>

lemma round_half_even_error: "\<bar>of_int (round_half_even x) - x\<bar> \<le> 1 / 2"
proof -
  define d where "d = x - of_int \<lfloor>x\<rfloor>"
  have d: "0 \<le> d" "d < 1" unfolding d_def by linarith+
  have r: "round_half_even x = (if d < 1 / 2 then \<lfloor>x\<rfloor> else if 1 / 2 < d then \<lfloor>x\<rfloor> + 1
             else if even \<lfloor>x\<rfloor> then \<lfloor>x\<rfloor> else \<lfloor>x\<rfloor> + 1)"
    unfolding round_half_even_def Let_def d_def by (rule refl)
  have x: "x = of_int \<lfloor>x\<rfloor> + d" unfolding d_def by simp
  have "\<bar>of_int (round_half_even x) - (of_int \<lfloor>x\<rfloor> + d)\<bar> \<le> 1 / 2"
    unfolding r using d by (simp add: abs_if)
  then show ?thesis using x by simp
qed

lemma fl_error_pos:
  assumes "0 < x"
  shows "\<bar>fl x - x\<bar> \<le> ulp x / 2"
proof -
  have u: "0 < ulp x" by (rule ulp_pos)
  have "fl x - x = (of_int (round_half_even (x / ulp x)) - x / ulp x) * ulp x"
    using u assms by (simp add: fl_pos_eq algebra_simps)
  then have "\<bar>fl x - x\<bar> = \<bar>of_int (round_half_even (x / ulp x)) - x / ulp x\<bar> * ulp x"
    using u by (simp add: abs_mult)
  also have "\<dots> \<le> (1 / 2) * ulp x"
    using round_half_even_error[of "x / ulp x"] u by (intro mult_right_mono) simp_all
  finally show ?thesis by simp
qed

lemma fl_error: "\<bar>fl x - x\<bar> \<le> ulp x / 2"
proof -
  consider "0 < x" | "x = 0" | "x < 0" by linarith
  then show ?thesis
  proof cases
    case 1
    then show ?thesis by (rule fl_error_pos)
  next
    case 2
    then show ?thesis using ulp_pos[of 0] by (simp add: fl_def)
  next
    case 3
    then have "\<bar>fl (- x) - (- x)\<bar> \<le> ulp (- x) / 2" by (intro fl_error_pos) simp
    then have "\<bar>- (fl x - x)\<bar> \<le> ulp x / 2" by (simp add: fl_neg ulp_def)
    then show ?thesis by (simp only: abs_minus_cancel)
  qed
qed

text \<open>No overflow below \<open>2\<^sup>1\<^sup>0\<^sup>2\<^sup>3\<close>; sums of integers below \<open>2\<^sup>5\<^sup>3\<close> are exact.\<close>

lemma fl_2_1023: "fl (2 ^ 1023) = 2 ^ 1023"
  using fl_representable[of 1 1023] by (simp add: pow2_def)

lemma js_round_finite:
  assumes "\<bar>x\<bar> < 2 ^ 1023"
  shows "js_round x = Fin (fl x)"
proof -
  have "fl x \<le> fl (2 ^ 1023)" using assms by (intro fl_mono) simp
  then have up: "fl x \<le> 2 ^ 1023" by (simp only: fl_2_1023)
  have "fl (- (2 ^ 1023)) \<le> fl x" using assms by (intro fl_mono) simp
  then have lo: "- (2 ^ 1023) \<le> fl x" by (simp only: fl_neg fl_2_1023)
  have "(2 :: rat) ^ 1023 < 2 ^ 1024" by (rule power_strict_increasing) simp_all
  with up lo have "\<not> 2 ^ 1024 \<le> fl x" "\<not> fl x \<le> - (2 ^ 1024)" by linarith+
  then show ?thesis by (simp only: js_round_def if_False)
qed

lemma pow_53_1023: "(2 :: rat) ^ 53 < 2 ^ 1023"
  by (rule power_strict_increasing) simp_all

lemma js_round_of_nat:
  assumes "n < 2 ^ 53"
  shows "js_round (of_nat n) = Fin (of_nat n)"
proof -
  have "(of_nat n :: rat) < of_nat (2 ^ 53)" using assms by (simp only: of_nat_less_iff)
  then have "(of_nat n :: rat) < 2 ^ 53" by (simp only: of_nat_power of_nat_numeral)
  then have "\<bar>of_nat n :: rat\<bar> < 2 ^ 1023" using pow_53_1023 by simp
  then show ?thesis by (simp only: js_round_finite fl_of_nat[OF assms])
qed

lemma js_plus_of_nat:
  "m + n < 2 ^ 53 \<Longrightarrow> js_plus (Fin (of_nat m)) (Fin (of_nat n)) = Fin (of_nat (m + n))"
  using js_round_of_nat[of "m + n"] by simp

text \<open>
  What \<open>parseFloat\<close> reads: a raw amount below \<open>2\<^sup>5\<^sup>3\<close> as it is, one above rounded
  (here upwards), a fraction of a unit kept.
\<close>

lemma parseFloat_exact: "n < 2 ^ 53 \<Longrightarrow> parseFloat (Decimal (of_nat n)) = Fin (of_nat n)"
  by (simp add: parseFloat.simps js_round_of_nat)

lemma parseFloat_123456: "parseFloat (Decimal 123456) = Fin 123456"
  using parseFloat_exact[of 123456] by simp



text \<open>
  \<open>2\<^sup>6\<^sup>3\<close> raw units are read as they are; above \<open>2\<^sup>6\<^sup>3\<close> the binary64 values are
  2048 apart, and \<open>2\<^sup>6\<^sup>3 + 123456\<close> is rounded to \<open>2\<^sup>6\<^sup>3 + 122880\<close>.
\<close>

lemma fl_2_63: "fl 9223372036854775808 = 9223372036854775808"
  using fl_representable[of 1 63] by (simp add: pow2_def)

lemma parseFloat_2_63:
  "parseFloat (Decimal 9223372036854775808) = Fin 9223372036854775808"
proof -
  have "\<bar>9223372036854775808 :: rat\<bar> < 2 ^ 1023"
    using power_strict_increasing[of 63 1023 "2 :: rat"] by simp
  then show ?thesis by (simp only: parseFloat.simps js_round_finite fl_2_63)
qed

lemma js_plus_2_63:
  "js_plus (Fin 9223372036854775808) (Fin 123456) = Fin 9223372036854898688"
proof -
  have s: "(9223372036854775808 :: rat) + 123456 = 9223372036854899264"
    by simp
  have "\<bar>9223372036854899264 :: rat\<bar> < 2 ^ 1023"
    using power_strict_increasing[of 64 1023 "2 :: rat"] by simp
  moreover have "fl 9223372036854899264 = 9223372036854898688"
    using fl_eval[of 63 9223372036854899264] by (simp add: fl_compute)
  ultimately show ?thesis by (simp only: js_plus.simps s js_round_finite)
qed

text \<open>\<open>2\<^sup>5\<^sup>3 + 1\<close> is halfway between two binary64 values and is rounded to \<open>2\<^sup>5\<^sup>3\<close>.\<close>

lemma js_plus_2_53: "js_plus (Fin 9007199254740992) (Fin 1) = Fin 9007199254740992"
proof -
  have s: "(9007199254740992 :: rat) + 1 = 9007199254740993"
    by simp
  have "\<bar>9007199254740993 :: rat\<bar> < 2 ^ 1023"
    using power_strict_increasing[of 54 1023 "2 :: rat"] by simp
  moreover have "fl 9007199254740993 = 9007199254740992"
    using fl_eval[of 53 9007199254740993] by (simp add: fl_compute)
  ultimately show ?thesis by (simp only: js_plus.simps s js_round_finite)
qed

text \<open>
  20000000 lamports are 0.02 SOL; \<open>0.02 - 0.005\<close> is \<open>0.015\<close>; \<open>0.015 + 0.005\<close> is
  \<open>0.02\<close>, which is not \<open>0.015\<close> and \<open>0.005\<close> added exactly.
\<close>

lemma balance_0_02:
  "js_div (number_of_u64 20000000) lit_1e9 = 5764607523034235 / 288230376151711744"
  unfolding js_div_def lit_1e9_value
  using fl_eval[of "- 6" "20000000 / 1000000000"]
  by (simp add: number_of_u64_exact fl_compute)

lemma js_sub_0_02:
  "js_sub (5764607523034235 / 288230376151711744) lit_0_005 = 1080863910568919 / 72057594037927936"
proof -
  have "(5764607523034235 / 288230376151711744 :: rat) - 5764607523034235 / 1152921504606846976
          = 17293822569102705 / 1152921504606846976"
    by simp
  moreover have "fl (17293822569102705 / 1152921504606846976) = 1080863910568919 / 72057594037927936"
    using fl_eval[of "- 7" "17293822569102705 / 1152921504606846976"]
    by (simp add: fl_compute)
  ultimately show ?thesis by (simp only: js_sub_def lit_0_005_value)
qed

lemma js_plus_0_015:
  "js_plus (Fin (1080863910568919 / 72057594037927936)) (Fin lit_0_005)
     = Fin (5764607523034235 / 288230376151711744)"
proof -
  have s: "(1080863910568919 / 72057594037927936 :: rat) + 5764607523034235 / 1152921504606846976
          = 23058430092136939 / 1152921504606846976"
    by simp
  have "\<bar>23058430092136939 / 1152921504606846976 :: rat\<bar> < 2 ^ 1023"
    using pow_53_1023 by simp
  moreover have "fl (23058430092136939 / 1152921504606846976) = 5764607523034235 / 288230376151711744"
    using fl_eval[of "- 6" "23058430092136939 / 1152921504606846976"]
    by (simp add: fl_compute)
  ultimately show ?thesis by (simp only: js_plus.simps lit_0_005_value s js_round_finite)
qed

lemma js_plus_0_lit_0_005: "js_plus 0 (Fin lit_0_005) = Fin lit_0_005"
proof -
  have "\<bar>lit_0_005\<bar> < 2 ^ 1023"
    using pow_53_1023 by (simp add: lit_0_005_value)
  then show ?thesis by (simp add: zero_jsnum_def js_round_finite fl_lit_0_005)
qed

section \<open>Running the monad symbolically\<close>

lemma post_return: "post (io_return a) s Q = Q (Return a) s"
  by (simp add: post_def io_return_def)

lemma post_throw: "post (io_throw e) s Q = Q (Throw e) s"
  by (simp add: post_def io_throw_def)

lemma post_exit: "post (exit_process n) s Q = Q (Exit n) s"
  by (simp add: post_def exit_process_def)

lemma post_bind:
  "post (io_bind m f) s Q =
     post m s (\<lambda>c s'. case c of Return a \<Rightarrow> post (f a) s' Q
                                | Throw e \<Rightarrow> Q (Throw e) s'
                                | Exit n \<Rightarrow> Q (Exit n) s')"
  by (simp add: post_def io_bind_def split: prod.splits completion.splits)

lemma post_seq:
  "post (io_seq m k) s Q =
     post m s (\<lambda>c s'. case c of Return a \<Rightarrow> post k s' Q
                                | Throw e \<Rightarrow> Q (Throw e) s'
                                | Exit n \<Rightarrow> Q (Exit n) s')"
  by (simp add: io_seq_def post_bind)

lemma post_try:
  "post (try_catch m h) s Q =
     post m s (\<lambda>c s'. case c of Return a \<Rightarrow> Q (Return a) s'
                                | Throw e \<Rightarrow> post (h e) s' Q
                                | Exit n \<Rightarrow> Q (Exit n) s')"
  by (simp add: post_def try_catch_def split: prod.splits completion.splits)

lemma post_emit: "post (emit ev) s Q = Q (Return ()) (s\<lparr>trace := trace s @ [ev]\<rparr>)"
  by (simp add: post_def emit_def)

lemma post_emit_all: "post (emit_all evs) s Q = Q (Return ()) (s\<lparr>trace := trace s @ evs\<rparr>)"
  by (simp add: post_def emit_all_def)

lemma post_modify: "post (modify_stats f) s Q = Q (Return ()) (s\<lparr>stats := f (stats s)\<rparr>)"
  by (simp add: post_def modify_stats_def)

lemma post_get_stats: "post get_stats s Q = Q (Return (stats s)) s"
  by (simp add: post_def get_stats_def)

lemma post_raise: "post (raise e) s Q = Q (Throw e) (s\<lparr>trace := trace s @ [Raised e]\<rparr>)"
  by (simp add: raise_def post_seq post_emit post_throw)

lemma post_ext:
  "post (ext c r) s Q =
     ((\<forall>e. r = Inl e \<longrightarrow> Q (Throw e) (s\<lparr>trace := trace s @ [External c, Raised e]\<rparr>)) \<and>
      (\<forall>a. r = Inr a \<longrightarrow> Q (Return a) (s\<lparr>trace := trace s @ [External c]\<rparr>)))"
  by (cases r) (simp_all add: ext_def post_seq post_emit post_raise post_return)

lemma post_result_of:
  "post (result_of r) s Q =
     ((\<forall>e. r = Inl e \<longrightarrow> Q (Throw e) (s\<lparr>trace := trace s @ [Raised e]\<rparr>)) \<and>
      (\<forall>a. r = Inr a \<longrightarrow> Q (Return a) s))"
  by (cases r) (simp_all add: result_of_def post_raise post_return)

lemma RangeError_not_Nullish: "(RangeError = Nullish) = False"
  by (simp add: RangeError_def)

lemma message_RangeError:
  "message RangeError =
     Inr ''The number cannot be converted to a BigInt because it is not an integer''"
  by (simp add: RangeError_def)

text \<open>\<open>BigInt(Math.floor(t))\<close> is \<open>\<lfloor>t\<rfloor>\<close> for a finite \<open>t\<close> and throws otherwise.\<close>

lemma post_result_of_Inr: "post (result_of (Inr a)) s Q = Q (Return a) s"
  by (simp add: post_result_of)

lemma post_result_of_Inl:
  "post (result_of (Inl e)) s Q = Q (Throw e) (s\<lparr>trace := trace s @ [Raised e]\<rparr>)"
  by (simp add: post_result_of)

lemma post_BigInt:
  "post (result_of (BigInt (Math_floor t))) s Q =
     ((\<forall>x. t = Fin x \<longrightarrow> Q (Return \<lfloor>x\<rfloor>) s) \<and>
      ((\<forall>x. t \<noteq> Fin x) \<longrightarrow> Q (Throw RangeError) (s\<lparr>trace := trace s @ [Raised RangeError]\<rparr>)))"
  by (cases t) (simp_all add: post_result_of)

lemma Fin_eq_0: "(Fin x = 0) = (x = 0)" "(0 = Fin x) = (x = 0)"
  by (auto simp add: zero_jsnum_def)

lemma zero_not_special: "(0 :: jsnum) \<noteq> NaN" "(0 :: jsnum) \<noteq> PosInfinity" "(0 :: jsnum) \<noteq> NegInfinity"
  by (simp_all add: zero_jsnum_def)

lemma post_message_of:
  "post (message_of e) s Q =
     ((\<forall>m. message e = Inr m \<longrightarrow> Q (Return m) s) \<and>
      (e = Nullish \<longrightarrow> Q (Throw TypeError) (s\<lparr>trace := trace s @ [Raised TypeError]\<rparr>)))"
  by (cases e) (simp_all add: message_of_def post_raise post_return)

lemma post_if:
  "post (if b then m else k) s Q = ((b \<longrightarrow> post m s Q) \<and> (\<not> b \<longrightarrow> post k s Q))"
  by simp

lemma post_buy_result:
  "post (case r of BuyOk x \<Rightarrow> f x | BuyFail y \<Rightarrow> g y) s Q =
     ((\<forall>x. r = BuyOk x \<longrightarrow> post (f x) s Q) \<and> (\<forall>y. r = BuyFail y \<longrightarrow> post (g y) s Q))"
  by (simp split: buy_result.splits)

lemma post_burn_result:
  "post (case r of BurnOk x a \<Rightarrow> f x a | BurnFail y \<Rightarrow> g y) s Q =
     ((\<forall>x a. r = BurnOk x a \<longrightarrow> post (f x a) s Q) \<and> (\<forall>y. r = BurnFail y \<longrightarrow> post (g y) s Q))"
  by (simp split: burn_result.splits)

lemma post_let: "post (let x = v in f x) s Q = post (f v) s Q"
  by simp

lemma message_Inr_Nullish: "message e = Inr m \<Longrightarrow> (e = Nullish) = False"
  by (cases e) auto

text \<open>\<open>tokenBalance === 0\<close>: the three cases of a token balance.\<close>

lemma post_if_zero:
  "post (if t = 0 then m else k) s Q =
     ((t = Fin 0 \<longrightarrow> post m s Q) \<and>
      (\<forall>x. t = Fin x \<longrightarrow> (x = 0) = False \<longrightarrow> post k s Q) \<and>
      ((\<forall>x. t \<noteq> Fin x) \<longrightarrow> post k s Q))"
  by (cases t) (auto simp add: zero_jsnum_def)

lemmas post_core = post_return post_throw post_exit post_bind post_seq post_try post_emit
  post_emit_all post_modify post_get_stats post_raise post_ext post_BigInt post_result_of_Inr
  post_result_of_Inl post_message_of
  post_buy_result post_burn_result post_let bot_log_def sleep_def message_Inr_Nullish

lemmas post_simps = post_core post_if

lemmas burn_steps = burnTokens_def getTokenBalance_def post_core post_if_zero
  message_RangeError RangeError_not_Nullish Fin_eq_0 zero_not_special

lemmas cycle_defs = executeCycle_def getBalance_def buyTokens_def burnTokens_def
  getTokenBalance_def update_stats_def log_summary_def

lemma fst_post: "(fst (m s) = c) = post m s (\<lambda>c' s'. c' = c)"
  by (simp add: post_def split: prod.splits)

lemma postD:
  "post m s Q \<Longrightarrow> Q (fst (m s)) (snd (m s))"
  by (simp add: post_def split: prod.splits)

lemma post_events:
  "post m s (\<lambda>c s'. P c (stats s') (drop (length (trace s)) (trace s'))) \<Longrightarrow>
   P (fst (m s)) (stats (snd (m s))) (events_of m s)"
  by (simp add: post_def events_of_def split: prod.splits)

lemma Math_max_pos: "0 < Math_max x lit_0_001"
  using lit_0_001_pos by (simp add: Math_max_def max_def)

lemma buyAmount_not_le_0: "(Math_max x lit_0_001 \<le> 0) = False"
  using Math_max_pos[of x] by simp



lemma no_message: "(\<forall>m. message e \<noteq> Inr m) = (e = Nullish)"
  by (cases e) auto

lemma sum_no_Inl: "(\<forall>e. r \<noteq> Inl e) = (\<exists>a. r = Inr a)"
  by (cases r) auto

lemma TypeError_not_Nullish: "(TypeError = Nullish) = False"
  by (simp add: TypeError_def)

lemma message_TypeError: "message TypeError = Inr ''Cannot read properties of null''"
  by (simp add: TypeError_def)

subsection \<open>When the methods return what\<close>

lemma buyTokens_BuyOk:
  "fst (buyTokens w a s) = Return (BuyOk sg) \<longleftrightarrow>
     (\<exists>r. fetch w = Inr r \<and> ok r \<and> arrayBuffer r = Inr () \<and> transaction_from w = Inr () \<and>
          buy_sign w = Inr () \<and> buy_sendRawTransaction w = Inr sg \<and>
          buy_confirmTransaction w = Inr ())"
  unfolding fst_post buyTokens_def
  by (cases "fetch w"; cases "transaction_from w"; cases "buy_sign w";
      cases "buy_sendRawTransaction w"; cases "buy_confirmTransaction w")
     (auto simp add: post_simps no_message sum_no_Inl)

lemma burnTokens_BurnOk:
  "fst (burnTokens w s) = Return (BurnOk sg amount) \<longleftrightarrow>
     (\<exists>a x. getAssociatedTokenAddress w = Inr () \<and> rpc_getTokenAccountBalance w = Inr a \<and>
          parseFloat a = Fin x \<and> x \<noteq> 0 \<and> amount = Fin x \<and>
          createBurnInstruction w \<lfloor>x\<rfloor> = Inr () \<and> rpc_getLatestBlockhash w = Inr () \<and>
          burn_sign w = Inr () \<and> burn_sendRawTransaction w = Inr sg \<and>
          burn_confirmTransaction w = Inr ())"
  unfolding fst_post
  by (cases "getAssociatedTokenAddress w"; cases "rpc_getTokenAccountBalance w";
      cases "rpc_getLatestBlockhash w"; cases "burn_sign w";
      cases "burn_sendRawTransaction w"; cases "burn_confirmTransaction w")
     (auto simp add: burn_steps no_message sum_no_Inl)

lemma getBalance_Return:
  "fst (getBalance w s) = Return b \<longleftrightarrow>
     (\<exists>l. rpc_getBalance w = Inr l \<and> b = js_div (number_of_u64 l) lit_1e9) \<or>
     (\<exists>e. rpc_getBalance w = Inl e \<and> e \<noteq> Nullish \<and> b = 0)"
  unfolding fst_post getBalance_def
  by (cases "rpc_getBalance w") (auto simp add: post_simps no_message)

lemma getTokenBalance_Return:
  "fst (getTokenBalance w s) = Return t \<longleftrightarrow>
     (\<exists>a. getAssociatedTokenAddress w = Inr () \<and> rpc_getTokenAccountBalance w = Inr a \<and>
          t = parseFloat a) \<or>
     ((\<exists>e. getAssociatedTokenAddress w = Inl e \<or> rpc_getTokenAccountBalance w = Inl e) \<and> t = 0)"
  unfolding fst_post getTokenBalance_def
  by (cases "getAssociatedTokenAddress w"; cases "rpc_getTokenAccountBalance w")
     (auto simp add: post_simps)

subsection \<open>The two executors as single steps\<close>


lemma post_fresh:
  "post m \<lparr>stats = st, trace = []\<rparr> (\<lambda>c s'. P c (trace s')) \<Longrightarrow>
   P (fst (m \<lparr>stats = st, trace = []\<rparr>)) (trace (snd (m \<lparr>stats = st, trace = []\<rparr>)))"
  by (simp add: post_def split: prod.splits)

lemma buyTokens_run:
  "buyTokens w a s = (buy_outcome w, s\<lparr>trace := trace s @ buy_events w a\<rparr>)"
proof -
  have "post (buyTokens w a) s (\<lambda>c s'.
          post (buyTokens w 0) \<lparr>stats = \<lparr>totalBurns = 0, totalTokensBurned = 0,
             totalSolSpent = 0, startTime = 0, lastBurnTime = None\<rparr>, trace = []\<rparr> (\<lambda>c0 s0. c = c0) \<and>
          post (buyTokens w a) \<lparr>stats = \<lparr>totalBurns = 0, totalTokensBurned = 0,
             totalSolSpent = 0, startTime = 0, lastBurnTime = None\<rparr>, trace = []\<rparr>
             (\<lambda>c0 s0. s' = s\<lparr>trace := trace s @ trace s0\<rparr>))"
    by (simp add: buyTokens_def post_simps)
  then show ?thesis
    by (simp add: post_def buy_outcome_def buy_events_def split: prod.splits)
qed

lemma burnTokens_run:
  "burnTokens w s = (burn_outcome w, s\<lparr>trace := trace s @ burn_events w\<rparr>)"
proof -
  have "post (burnTokens w) s (\<lambda>c s'.
          post (burnTokens w) \<lparr>stats = \<lparr>totalBurns = 0, totalTokensBurned = 0,
             totalSolSpent = 0, startTime = 0, lastBurnTime = None\<rparr>, trace = []\<rparr>
             (\<lambda>c0 s0. c = c0 \<and> s' = s\<lparr>trace := trace s @ trace s0\<rparr>))"
    by (simp add: burn_steps)
  then show ?thesis
    by (simp add: post_def burn_outcome_def burn_events_def split: prod.splits)
qed

lemma fst_buyTokens: "fst (buyTokens w a s) = buy_outcome w"
  by (simp add: buyTokens_run)

lemma fst_burnTokens: "fst (burnTokens w s) = burn_outcome w"
  by (simp add: burnTokens_run)

lemma events_of_buyTokens: "events_of (buyTokens w a) s = buy_events w a"
  by (simp add: events_of_def buyTokens_run)

lemma events_of_burnTokens: "events_of (burnTokens w) s = burn_events w"
  by (simp add: events_of_def burnTokens_run)

lemma buy_outcome_cases:
  "(\<exists>x. buy_outcome w = Return (BuyOk x)) \<or> (\<exists>m. buy_outcome w = Return (BuyFail m)) \<or>
   buy_outcome w = Throw TypeError"
proof -
  have "post (buyTokens w 0) \<lparr>stats = \<lparr>totalBurns = 0, totalTokensBurned = 0,
             totalSolSpent = 0, startTime = 0, lastBurnTime = None\<rparr>, trace = []\<rparr>
          (\<lambda>c s'. (\<exists>x. c = Return (BuyOk x)) \<or> (\<exists>m. c = Return (BuyFail m)) \<or> c = Throw TypeError)"
    by (simp add: buyTokens_def post_simps)
  then show ?thesis by (simp add: post_def buy_outcome_def split: prod.splits)
qed

lemma burn_outcome_cases:
  "(\<exists>x a. burn_outcome w = Return (BurnOk x a)) \<or> (\<exists>m. burn_outcome w = Return (BurnFail m)) \<or>
   burn_outcome w = Throw TypeError"
proof -
  have "post (burnTokens w) \<lparr>stats = \<lparr>totalBurns = 0, totalTokensBurned = 0,
             totalSolSpent = 0, startTime = 0, lastBurnTime = None\<rparr>, trace = []\<rparr>
          (\<lambda>c s'. (\<exists>x a. c = Return (BurnOk x a)) \<or> (\<exists>m. c = Return (BurnFail m)) \<or> c = Throw TypeError)"
    by (simp add: burn_steps)
  then show ?thesis by (simp add: post_def burn_outcome_def split: prod.splits)
qed

lemma post_buyTokens:
  "post (buyTokens w a) s Q =
     ((\<forall>x. buy_outcome w = Return (BuyOk x) \<longrightarrow>
            Q (Return (BuyOk x)) (s\<lparr>trace := trace s @ buy_events w a\<rparr>)) \<and>
      (\<forall>m. buy_outcome w = Return (BuyFail m) \<longrightarrow>
            Q (Return (BuyFail m)) (s\<lparr>trace := trace s @ buy_events w a\<rparr>)) \<and>
      (buy_outcome w = Throw TypeError \<longrightarrow>
            Q (Throw TypeError) (s\<lparr>trace := trace s @ buy_events w a\<rparr>)))"
  using buy_outcome_cases[of w] by (auto simp add: post_def buyTokens_run)

lemma post_burnTokens:
  "post (burnTokens w) s Q =
     ((\<forall>x a. burn_outcome w = Return (BurnOk x a) \<longrightarrow>
            Q (Return (BurnOk x a)) (s\<lparr>trace := trace s @ burn_events w\<rparr>)) \<and>
      (\<forall>m. burn_outcome w = Return (BurnFail m) \<longrightarrow>
            Q (Return (BurnFail m)) (s\<lparr>trace := trace s @ burn_events w\<rparr>)) \<and>
      (burn_outcome w = Throw TypeError \<longrightarrow>
            Q (Throw TypeError) (s\<lparr>trace := trace s @ burn_events w\<rparr>)))"
  using burn_outcome_cases[of w] by (auto simp add: post_def burnTokens_run)


subsection \<open>What the executors append to the trace\<close>

lemma buy_events_is_buy:
  "filter is_buy (buy_events w a) = [Invoked (M_buyTokens a), External (Fetch_trade_local a)]"
  unfolding buy_events_def
  by (rule post_fresh[where P = "\<lambda>c evs. filter is_buy evs =
        [Invoked (M_buyTokens a), External (Fetch_trade_local a)]"])
     (simp add: buyTokens_def post_simps)

lemma buy_events_no_burn: "Invoked M_burnTokens \<notin> set (buy_events w a)"
  unfolding buy_events_def
  by (rule post_fresh[where P = "\<lambda>c evs. Invoked M_burnTokens \<notin> set evs"])
     (simp add: buyTokens_def post_simps)

lemma buy_events_invoked: "Invoked (M_buyTokens a) \<in> set (buy_events w a)"
  unfolding buy_events_def
  by (rule post_fresh[where P = "\<lambda>c evs. Invoked (M_buyTokens a) \<in> set evs"])
     (simp add: buyTokens_def post_simps)

lemma buy_events_no_abort: "Logged Error NotEnoughAfterFee \<notin> set (buy_events w a)"
  unfolding buy_events_def
  by (rule post_fresh[where P = "\<lambda>c evs. Logged Error NotEnoughAfterFee \<notin> set evs"])
     (simp add: buyTokens_def post_simps)

lemma burn_events_is_buy: "filter is_buy (burn_events w) = []"
  unfolding burn_events_def
  by (rule post_fresh[where P = "\<lambda>c evs. filter is_buy evs = []"])
     (simp add: burn_steps)

lemma burn_events_no_abort: "Logged Error NotEnoughAfterFee \<notin> set (burn_events w)"
  unfolding burn_events_def
  by (rule post_fresh[where P = "\<lambda>c evs. Logged Error NotEnoughAfterFee \<notin> set evs"])
     (simp add: burn_steps)

subsection \<open>What follows a throw\<close>

lemma answered_append: "answered p e (xs @ y # ys) = answered p e (xs @ [y])"
  by (cases xs) (simp_all add: answered_def)

lemma throws_answered_append:
  "thrown_of y = None \<Longrightarrow>
   throws_answered p (xs @ y # ys) = (throws_answered p (xs @ [y]) \<and> throws_answered (Some y) ys)"
proof (induction xs arbitrary: p)
  case Nil
  then show ?case by simp
next
  case (Cons x xs)
  have "answered p e (xs @ y # ys) = answered p e (xs @ [y])" for e
    by (rule answered_append)
  then show ?case using Cons by (simp split: option.splits)
qed

lemmas answered_simps = answered_def reads_token_balance_def TypeError_not_Nullish
  message_TypeError

lemma buy_events_answered_last:
  assumes "thrown_of y = None"
  shows "throws_answered p (buy_events w a @ [y]) =
           (buy_outcome w = Throw TypeError \<longrightarrow>
              error_text y = Some ''Cannot read properties of null'')"
proof -
  have "post (buyTokens w a) \<lparr>stats = \<lparr>totalBurns = 0, totalTokensBurned = 0,
             totalSolSpent = 0, startTime = 0, lastBurnTime = None\<rparr>, trace = []\<rparr>
          (\<lambda>c s'. throws_answered p (trace s' @ [y]) =
             (c = Throw TypeError \<longrightarrow> error_text y = Some ''Cannot read properties of null''))"
    using assms by (simp add: buyTokens_def post_simps answered_simps)
  then have "throws_answered p (buy_events w a @ [y]) =
      (fst (buyTokens w a \<lparr>stats = \<lparr>totalBurns = 0, totalTokensBurned = 0,
             totalSolSpent = 0, startTime = 0, lastBurnTime = None\<rparr>, trace = []\<rparr>) = Throw TypeError \<longrightarrow>
         error_text y = Some ''Cannot read properties of null'')"
    by (simp add: post_def buy_events_def split: prod.splits)
  then show ?thesis by (simp only: fst_buyTokens)
qed

lemma burn_events_answered_last:
  assumes "thrown_of y = None"
  shows "throws_answered p (burn_events w @ [y]) =
           (burn_outcome w = Throw TypeError \<longrightarrow>
              error_text y = Some ''Cannot read properties of null'')"
proof -
  have "post (burnTokens w) \<lparr>stats = \<lparr>totalBurns = 0, totalTokensBurned = 0,
             totalSolSpent = 0, startTime = 0, lastBurnTime = None\<rparr>, trace = []\<rparr>
          (\<lambda>c s'. throws_answered p (trace s' @ [y]) =
             (c = Throw TypeError \<longrightarrow> error_text y = Some ''Cannot read properties of null''))"
    using assms
    by (simp add: burn_steps answered_simps)
  then show ?thesis
    by (simp add: post_def burn_events_def burn_outcome_def split: prod.splits)
qed

lemma buy_events_answered:
  assumes "thrown_of y = None"
  shows "throws_answered p (buy_events w a @ y # ys) =
     ((buy_outcome w = Throw TypeError \<longrightarrow> error_text y = Some ''Cannot read properties of null'') \<and>
      throws_answered (Some y) ys)"
  unfolding throws_answered_append[OF assms, where ys = ys and xs = "buy_events w a"]
    buy_events_answered_last[OF assms]
  by (rule refl)

lemma burn_events_answered:
  assumes "thrown_of y = None"
  shows "throws_answered p (burn_events w @ y # ys) =
     ((burn_outcome w = Throw TypeError \<longrightarrow> error_text y = Some ''Cannot read properties of null'') \<and>
      throws_answered (Some y) ys)"
  unfolding throws_answered_append[OF assms, where ys = ys and xs = "burn_events w"]
    burn_events_answered_last[OF assms]
  by (rule refl)

lemmas executor_steps = post_buyTokens post_burnTokens fst_buyTokens fst_burnTokens
  buy_events_is_buy buy_events_no_burn buy_events_invoked buy_events_no_abort
  burn_events_is_buy burn_events_no_abort buy_events_answered burn_events_answered

lemmas cycle_steps = executeCycle_def getBalance_def update_stats_def log_summary_def
  post_simps executor_steps TypeError_not_Nullish message_TypeError

section \<open>The claims\<close>

lemma spend_floor:
  assumes "b < lit_0_006"
  shows "Math_max (js_sub b lit_0_005) lit_0_001 = lit_0_001 \<and> b - lit_0_005 < lit_0_001"
proof -
  have lt: "b - lit_0_005 < lit_0_001"
    using assms lit_0_006_minus_lit_0_005 by linarith
  then have "fl (b - lit_0_005) \<le> fl lit_0_001" by (intro fl_mono) simp
  then have "js_sub b lit_0_005 \<le> lit_0_001" by (simp add: js_sub_def fl_lit_0_001)
  with lt show ?thesis by (simp add: Math_max_def max_def)
qed

lemmas sample_worlds = world_success_def world_buy_fails_def world_burn_fails_def
  world_no_token_account_def world_low_balance_def world_small_balance_def world_nullish_def
  world_first_cycle_def world_large_balance_def world_fraction_def world_not_numeric_def
  world_rpc_timeout_def

lemma executeCycle_returns: "fst (executeCycle cfg w s) = Return ()"
proof -
  have "post (executeCycle cfg w) s (\<lambda>c s'. c = Return ())"
    by (simp add: cycle_steps buyAmount_not_le_0)
  then show ?thesis by (rule postD)
qed

lemma run_cycles_returns: "fst (run_cycles cfg ws s) = Return ()"
proof (induction ws arbitrary: s)
  case Nil
  show ?case by (simp add: io_return_def)
next
  case (Cons w ws)
  obtain s' where "executeCycle cfg w s = (Return (), s')"
    using executeCycle_returns[of cfg w s] by (cases "executeCycle cfg w s") auto
  then show ?case using Cons.IH[of s'] by (simp add: io_seq_def io_bind_def)
qed

lemma stats_change_only_on_success:
  "stats (snd (executeCycle cfg w s)) = stats s \<or>
   ((\<exists>sg. buy_outcome w = Return (BuyOk sg)) \<and> (\<exists>sg amount. burn_outcome w = Return (BurnOk sg amount)))"
proof -
  have "post (executeCycle cfg w) s (\<lambda>c s'. stats s' = stats s \<or>
          ((\<exists>sg. buy_outcome w = Return (BuyOk sg)) \<and>
           (\<exists>sg amount. burn_outcome w = Return (BurnOk sg amount))))"
    by (simp add: cycle_steps buyAmount_not_le_0)
  then show ?thesis by (rule postD)
qed

text \<open>What a fully successful cycle does to \<open>this.stats\<close>.\<close>

lemma executeCycle_success_stats:
  assumes "fst (getBalance w s1) = Return b"
      and "\<not> js_lt b (MIN_SOL_BALANCE cfg)"
      and "fst (buyTokens w a s2) = Return (BuyOk sg)"
      and "fst (burnTokens w s3) = Return (BurnOk sg' amount)"
  shows "stats (snd (executeCycle cfg w s)) =
           (stats s)\<lparr>totalBurns := js_plus (totalBurns (stats s)) (Fin 1),
                     totalTokensBurned := js_plus (totalTokensBurned (stats s)) amount,
                     totalSolSpent := js_plus (totalSolSpent (stats s))
                                        (Fin (Math_max (js_sub b lit_0_005) lit_0_001)),
                     lastBurnTime := Some (now w)\<rparr>"
proof -
  have "post (executeCycle cfg w) s (\<lambda>c s'. stats s' =
           (stats s)\<lparr>totalBurns := js_plus (totalBurns (stats s)) (Fin 1),
                     totalTokensBurned := js_plus (totalTokensBurned (stats s)) amount,
                     totalSolSpent := js_plus (totalSolSpent (stats s))
                                        (Fin (Math_max (js_sub b lit_0_005) lit_0_001)),
                     lastBurnTime := Some (now w)\<rparr>)"
    using assms
    unfolding getBalance_Return
    by (elim disjE exE conjE) (simp_all add: cycle_steps no_message buyAmount_not_le_0)
  then show ?thesis by (rule postD)
qed

text \<open>The two sample cycles: 0.02 SOL, then 0.01 SOL, both fully successful.\<close>

lemma world_success_runs:
  "fst (getBalance world_success s1) = Return (js_div (number_of_u64 10000000) lit_1e9)"
  "\<not> js_lt (js_div (number_of_u64 10000000) lit_1e9) (MIN_SOL_BALANCE default_config)"
  "fst (buyTokens world_success a s2) = Return (BuyOk ''buy-signature'')"
  "fst (burnTokens world_success s3) = Return (BurnOk ''burn-signature'' (Fin 123456))"
  "Math_max (js_sub (js_div (number_of_u64 10000000) lit_1e9) lit_0_005) lit_0_001 = lit_0_005"
proof -
  show "fst (getBalance world_success s1) = Return (js_div (number_of_u64 10000000) lit_1e9)"
    by (simp add: getBalance_Return sample_worlds)
  show "\<not> js_lt (js_div (number_of_u64 10000000) lit_1e9) (MIN_SOL_BALANCE default_config)"
    by (simp add: default_config_def balance_0_01 lit_0_005_value)
  show "fst (buyTokens world_success a s2) = Return (BuyOk ''buy-signature'')"
    by (simp add: buyTokens_BuyOk sample_worlds)
  show "fst (burnTokens world_success s3) = Return (BurnOk ''burn-signature'' (Fin 123456))"
    by (simp add: burnTokens_BurnOk sample_worlds parseFloat_123456)
  show "Math_max (js_sub (js_div (number_of_u64 10000000) lit_1e9) lit_0_005) lit_0_001 = lit_0_005"
    by (simp add: balance_0_01 js_sub_0_01 Math_max_def)
       (simp add: lit_0_005_value lit_0_001_value)
qed

lemma world_first_cycle_runs:
  "fst (getBalance world_first_cycle s1) = Return (js_div (number_of_u64 20000000) lit_1e9)"
  "\<not> js_lt (js_div (number_of_u64 20000000) lit_1e9) (MIN_SOL_BALANCE default_config)"
  "fst (buyTokens world_first_cycle a s2) = Return (BuyOk ''buy-signature'')"
  "fst (burnTokens world_first_cycle s3) =
     Return (BurnOk ''burn-signature'' (Fin 9223372036854775808))"
  "Math_max (js_sub (js_div (number_of_u64 20000000) lit_1e9) lit_0_005) lit_0_001
     = 1080863910568919 / 72057594037927936"
proof -
  show "fst (getBalance world_first_cycle s1) = Return (js_div (number_of_u64 20000000) lit_1e9)"
    by (simp add: getBalance_Return sample_worlds)
  show "\<not> js_lt (js_div (number_of_u64 20000000) lit_1e9) (MIN_SOL_BALANCE default_config)"
    by (simp add: default_config_def balance_0_02 lit_0_005_value)
  show "fst (buyTokens world_first_cycle a s2) = Return (BuyOk ''buy-signature'')"
    by (simp add: buyTokens_BuyOk sample_worlds)
  show "fst (burnTokens world_first_cycle s3) =
     Return (BurnOk ''burn-signature'' (Fin 9223372036854775808))"
    by (simp add: burnTokens_BurnOk sample_worlds parseFloat_2_63)
  show "Math_max (js_sub (js_div (number_of_u64 20000000) lit_1e9) lit_0_005) lit_0_001
     = 1080863910568919 / 72057594037927936"
    by (simp add: balance_0_02 js_sub_0_02 Math_max_def)
       (simp add: lit_0_001_value)
qed

lemma stats_after_first_cycle:
  "totalSolSpent (stats after_first_cycle) = Fin (1080863910568919 / 72057594037927936)"
  "totalTokensBurned (stats after_first_cycle) = Fin 9223372036854775808"
proof -
  have "\<bar>9223372036854775808 :: rat\<bar> < 2 ^ 1023"
    using power_strict_increasing[of 63 1023 "2 :: rat"] by simp
  then have "js_plus 0 (Fin 9223372036854775808) = Fin 9223372036854775808"
    by (simp add: zero_jsnum_def js_round_finite fl_2_63)
  then show "totalTokensBurned (stats after_first_cycle) = Fin 9223372036854775808"
    unfolding after_first_cycle_def
      executeCycle_success_stats[OF world_first_cycle_runs(1-4), where s = fresh_bot]
    by (simp add: fresh_bot_def)
next
  have "\<bar>1080863910568919 / 72057594037927936 :: rat\<bar> < 2 ^ 1023"
    using pow_53_1023 by simp
  moreover have "fl (1080863910568919 / 72057594037927936) = 1080863910568919 / 72057594037927936"
    using fl_representable[of 1080863910568919 "- 56"] by (simp add: pow2_def)
  ultimately have "js_plus 0 (Fin (1080863910568919 / 72057594037927936))
      = Fin (1080863910568919 / 72057594037927936)"
    by (simp add: zero_jsnum_def js_round_finite)
  then show "totalSolSpent (stats after_first_cycle) = Fin (1080863910568919 / 72057594037927936)"
    unfolding after_first_cycle_def
      executeCycle_success_stats[OF world_first_cycle_runs(1-4), where s = fresh_bot]
    by (simp add: world_first_cycle_runs(5) fresh_bot_def)
qed

text \<open>
  Claim C1. In a cycle whose buy succeeds and whose burn then reports failure,
  \<open>executeCycle\<close> leaves \<open>this.stats\<close> as it was: no field changes. The completions of
  \<open>buyTokens\<close> and \<open>burnTokens\<close> depend on the environment only (\<open>fst_buyTokens\<close>,
  \<open>fst_burnTokens\<close>), so the states and the amount in the two hypotheses are arbitrary.
  That the statistics change in no cycle but a fully successful one is
  \<open>stats_change_only_on_success\<close> above.
\<close>

theorem executeCycle_burn_failure_keeps_stats:
  assumes "fst (buyTokens w a s1) = Return (BuyOk sg)"
      and "fst (burnTokens w s2) = Return (BurnFail r)"
  shows "stats (snd (executeCycle cfg w s)) = stats s"
proof -
  have "post (executeCycle cfg w) s (\<lambda>c s'. stats s' = stats s)"
    using assms
    by (simp add: cycle_steps)
  then show ?thesis by (rule postD)
qed

theorem executeCycle_burn_failure_keeps_stats_witness:
  "fst (buyTokens world_burn_fails lit_0_005 fresh_bot) = Return (BuyOk ''buy-signature'') \<and>
   fst (burnTokens world_burn_fails fresh_bot) = Return (BurnFail (Some ''blockhash not found'')) \<and>
   stats (snd (executeCycle default_config world_burn_fails fresh_bot)) = stats fresh_bot"
proof -
  have buy: "fst (buyTokens world_burn_fails lit_0_005 fresh_bot) = Return (BuyOk ''buy-signature'')"
    by (simp add: buyTokens_BuyOk sample_worlds)
  have burn: "fst (burnTokens world_burn_fails fresh_bot) = Return (BurnFail (Some ''blockhash not found''))"
    unfolding fst_post
    by (simp add: burn_steps sample_worlds parseFloat_123456)
  show ?thesis using buy burn executeCycle_burn_failure_keeps_stats[OF buy burn, of default_config fresh_bot] by simp
qed

text \<open>
  Claim C2. If \<open>buyTokens\<close> returns a failure result, \<open>executeCycle\<close> does not call
  \<open>burnTokens\<close> in that cycle, and \<open>this.stats\<close> is unchanged.
\<close>

theorem executeCycle_buy_failure_skips_burn:
  assumes "fst (buyTokens w a s1) = Return (BuyFail m)"
  shows "Invoked M_burnTokens \<notin> set (events_of (executeCycle cfg w) s) \<and>
         stats (snd (executeCycle cfg w s)) = stats s"
proof -
  have "post (executeCycle cfg w) s
          (\<lambda>c s'. Invoked M_burnTokens \<notin> set (drop (length (trace s)) (trace s')) \<and> stats s' = stats s)"
    using assms
    by (simp add: cycle_steps)
  then show ?thesis
    by (rule post_events[where P = "\<lambda>c st evs. Invoked M_burnTokens \<notin> set evs \<and> st = stats s"])
qed

theorem executeCycle_buy_failure_skips_burn_witness:
  "fst (buyTokens world_buy_fails lit_0_005 fresh_bot) = Return (BuyFail ''HTTP 500: unavailable'') \<and>
   Invoked M_burnTokens \<notin> set (events_of (executeCycle default_config world_buy_fails) fresh_bot) \<and>
   stats (snd (executeCycle default_config world_buy_fails fresh_bot)) = stats fresh_bot"
proof -
  have buy: "fst (buyTokens world_buy_fails lit_0_005 fresh_bot) = Return (BuyFail ''HTTP 500: unavailable'')"
    unfolding fst_post
    by (simp add: buyTokens_def post_simps sample_worlds
          decimal.simps[of 500] decimal.simps[of 50] decimal.simps[of 5] digit_def)
  show ?thesis using buy executeCycle_buy_failure_skips_burn[OF buy, of default_config fresh_bot] by simp
qed

text \<open>
  Claim C3. If the balance \<open>b\<close> that \<open>getBalance\<close> returns is below
  \<open>CONFIG.MIN_SOL_BALANCE\<close>, the cycle ends with the "Balance too low" line: it returns
  normally, \<open>buyTokens\<close> is not called and no request goes to the trading endpoint. The
  witness is the scenario of 0.003 SOL against the default minimum 0.005.
\<close>

theorem executeCycle_low_balance_no_buy:
  assumes "fst (getBalance w s1) = Return b"
      and "js_lt b (MIN_SOL_BALANCE cfg)"
  shows "fst (executeCycle cfg w s) = Return () \<and>
         filter is_buy (events_of (executeCycle cfg w) s) = [] \<and>
         last (events_of (executeCycle cfg w) s) = Logged Error (BalanceTooLow (MIN_SOL_BALANCE cfg))"
proof -
  have "post (executeCycle cfg w) s
          (\<lambda>c s'. c = Return () \<and> filter is_buy (drop (length (trace s)) (trace s')) = [] \<and>
             last (drop (length (trace s)) (trace s')) = Logged Error (BalanceTooLow (MIN_SOL_BALANCE cfg)))"
    using assms unfolding getBalance_Return
    by (elim disjE exE conjE) (simp_all add: executeCycle_def getBalance_def post_simps no_message)
  then show ?thesis
    by (rule post_events[where P = "\<lambda>c st evs. c = Return () \<and> filter is_buy evs = [] \<and>
          last evs = Logged Error (BalanceTooLow (MIN_SOL_BALANCE cfg))"])
qed

theorem executeCycle_low_balance_no_buy_witness:
  "fst (getBalance world_low_balance fresh_bot) = Return (js_div (number_of_u64 3000000) lit_1e9) \<and>
   js_lt (js_div (number_of_u64 3000000) lit_1e9) (MIN_SOL_BALANCE default_config) \<and>
   fst (executeCycle default_config world_low_balance fresh_bot) = Return () \<and>
   filter is_buy (events_of (executeCycle default_config world_low_balance) fresh_bot) = []"
proof -
  have bal: "fst (getBalance world_low_balance fresh_bot) = Return (js_div (number_of_u64 3000000) lit_1e9)"
    by (simp add: getBalance_Return sample_worlds)
  have low: "js_lt (js_div (number_of_u64 3000000) lit_1e9) (MIN_SOL_BALANCE default_config)"
    by (simp add: default_config_def balance_0_003 lit_0_005_value)
  show ?thesis using bal low executeCycle_low_balance_no_buy[OF bal low, of fresh_bot] by simp
qed

text \<open>
  Claim C4 says that a fully successful cycle increases \<open>totalSolSpent\<close> by exactly the
  spend amount, \<open>totalTokensBurned\<close> by exactly the burned amount and \<open>totalBurns\<close> by
  exactly 1. The bot \<open>after_first_cycle\<close> has completed one cycle with 0.02 SOL, in which
  it spent 0.015 and burned 9223372036854775808 raw units. Its next cycle, with 0.01 SOL,
  is fully successful, spends 0.005 and burns 123456 units. Afterwards \<open>totalSolSpent\<close>
  is 0.02, the binary64 sum of 0.015 and 0.005, and the increase, taken exactly or as the
  program would compute it, is not the 0.005 that was spent; \<open>totalTokensBurned\<close> is
  9223372036854898688, which is 122880 more than before. And a count of
  9007199254740992 burns is still 9007199254740992 after one more successful cycle.
\<close>

theorem second_cycle_totals_not_exact:
  "fst (getBalance world_success after_first_cycle) =
     Return (js_div (number_of_u64 10000000) lit_1e9) \<and>
   Math_max (js_sub (js_div (number_of_u64 10000000) lit_1e9) lit_0_005) lit_0_001 = lit_0_005 \<and>
   fst (buyTokens world_success lit_0_005 after_first_cycle) = Return (BuyOk ''buy-signature'') \<and>
   fst (burnTokens world_success after_first_cycle) =
     Return (BurnOk ''burn-signature'' (Fin 123456)) \<and>
   totalSolSpent (stats after_first_cycle) = Fin (1080863910568919 / 72057594037927936) \<and>
   totalSolSpent (stats (snd (executeCycle default_config world_success after_first_cycle))) =
     Fin (5764607523034235 / 288230376151711744) \<and>
   5764607523034235 / 288230376151711744 - 1080863910568919 / 72057594037927936 \<noteq> lit_0_005 \<and>
   js_sub (5764607523034235 / 288230376151711744) (1080863910568919 / 72057594037927936)
     \<noteq> lit_0_005 \<and>
   totalTokensBurned (stats after_first_cycle) = Fin 9223372036854775808 \<and>
   totalTokensBurned (stats (snd (executeCycle default_config world_success after_first_cycle))) =
     Fin 9223372036854898688 \<and>
   (9223372036854898688 :: rat) - 9223372036854775808 \<noteq> 123456 \<and>
   totalBurns (stats bot_many_burns) = Fin 9007199254740992 \<and>
   totalBurns (stats (snd (executeCycle default_config world_success bot_many_burns))) =
     Fin 9007199254740992"
proof -
  have before: "totalBurns (stats bot_many_burns) = Fin 9007199254740992"
    by (simp add: bot_many_burns_def)
  have same: "totalBurns (stats (snd (executeCycle default_config world_success bot_many_burns))) =
      Fin 9007199254740992"
    unfolding executeCycle_success_stats[OF world_success_runs(1-4), where s = bot_many_burns]
    by (simp add: before js_plus_2_53 del: js_plus.simps)
  have after: "totalSolSpent (stats (snd (executeCycle default_config world_success after_first_cycle))) =
      Fin (5764607523034235 / 288230376151711744)"
    unfolding executeCycle_success_stats[OF world_success_runs(1-4), where s = after_first_cycle]
    by (simp add: world_success_runs(5) stats_after_first_cycle js_plus_0_015 del: js_plus.simps)
  have after': "totalTokensBurned (stats (snd (executeCycle default_config world_success after_first_cycle))) =
      Fin 9223372036854898688"
    unfolding executeCycle_success_stats[OF world_success_runs(1-4), where s = after_first_cycle]
    by (simp add: stats_after_first_cycle js_plus_2_63 del: js_plus.simps)
  have exact: "(5764607523034235 / 288230376151711744 :: rat) - 1080863910568919 / 72057594037927936
         \<noteq> lit_0_005"
    by (simp add: lit_0_005_value)
  have "fl (1441151880758559 / 288230376151711744) = 1441151880758559 / 288230376151711744"
    using fl_representable[of 1441151880758559 "- 58"] by (simp add: pow2_def)
  then have rounded: "js_sub (5764607523034235 / 288230376151711744)
        (1080863910568919 / 72057594037927936) \<noteq> lit_0_005"
    by (simp add: js_sub_def lit_0_005_value)
  have tokens: "(9223372036854898688 :: rat) - 9223372036854775808 \<noteq> 123456"
    by simp
  show ?thesis
    using world_success_runs(1)[of after_first_cycle] world_success_runs(5)
      world_success_runs(3)[of lit_0_005 after_first_cycle]
      world_success_runs(4)[of after_first_cycle] stats_after_first_cycle after after'
      exact rounded tokens before same
    by blast
qed

text \<open>
  Claim C4, amended. In a fully successful cycle (the balance check passes, the buy
  succeeds, the burn succeeds with amount \<open>amount\<close>) the four fields change together and
  nothing else does: \<open>totalBurns\<close>, \<open>totalTokensBurned\<close> and \<open>totalSolSpent\<close> become the
  binary64 sums (\<open>js_plus\<close>, the program's \<open>++\<close> and \<open>+=\<close>) of their old values and 1,
  \<open>amount\<close> and the spend amount, and \<open>lastBurnTime\<close> is the current time. The two
  counters increase by exactly 1 and exactly \<open>amount\<close> as long as they are whole numbers
  and the sums stay below \<open>2\<^sup>5\<^sup>3\<close>: a count \<open>k\<close> becomes \<open>k + 1\<close>, a total of \<open>j\<close> units
  becomes \<open>j + n\<close>. \<open>totalSolSpent\<close> increases by the spend amount up to rounding:
  below the binary64 range the new value is within half a unit in the last place of the
  exact sum.
\<close>

theorem executeCycle_success_updates_stats:
  assumes "fst (getBalance w s1) = Return b"
      and "\<not> js_lt b (MIN_SOL_BALANCE cfg)"
      and "fst (buyTokens w a s2) = Return (BuyOk sg)"
      and "fst (burnTokens w s3) = Return (BurnOk sg' amount)"
  shows "stats (snd (executeCycle cfg w s)) =
           (stats s)\<lparr>totalBurns := js_plus (totalBurns (stats s)) (Fin 1),
                     totalTokensBurned := js_plus (totalTokensBurned (stats s)) amount,
                     totalSolSpent := js_plus (totalSolSpent (stats s))
                                        (Fin (Math_max (js_sub b lit_0_005) lit_0_001)),
                     lastBurnTime := Some (now w)\<rparr> \<and>
         (totalBurns (stats s) = Fin (of_nat k) \<and> k + 1 < 2 ^ 53 \<longrightarrow>
            totalBurns (stats (snd (executeCycle cfg w s))) = Fin (of_nat k + 1)) \<and>
         (totalTokensBurned (stats s) = Fin (of_nat j) \<and> amount = Fin (of_nat n) \<and> j + n < 2 ^ 53 \<longrightarrow>
            totalTokensBurned (stats (snd (executeCycle cfg w s))) = Fin (of_nat j + of_nat n)) \<and>
         (totalSolSpent (stats s) = Fin x \<and>
          \<bar>x + Math_max (js_sub b lit_0_005) lit_0_001\<bar> < 2 ^ 1023 \<longrightarrow>
            (\<exists>d. totalSolSpent (stats (snd (executeCycle cfg w s))) = Fin d \<and>
                 \<bar>d - (x + Math_max (js_sub b lit_0_005) lit_0_001)\<bar>
                   \<le> ulp (x + Math_max (js_sub b lit_0_005) lit_0_001) / 2))"
proof -
  have upd: "stats (snd (executeCycle cfg w s)) =
           (stats s)\<lparr>totalBurns := js_plus (totalBurns (stats s)) (Fin 1),
                     totalTokensBurned := js_plus (totalTokensBurned (stats s)) amount,
                     totalSolSpent := js_plus (totalSolSpent (stats s))
                                        (Fin (Math_max (js_sub b lit_0_005) lit_0_001)),
                     lastBurnTime := Some (now w)\<rparr>"
    using assms by (rule executeCycle_success_stats)
  have burns: "totalBurns (stats s) = Fin (of_nat k) \<and> k + 1 < 2 ^ 53 \<longrightarrow>
            totalBurns (stats (snd (executeCycle cfg w s))) = Fin (of_nat k + 1)"
    using js_plus_of_nat[of k 1] by (simp add: upd)
  have tokens: "totalTokensBurned (stats s) = Fin (of_nat j) \<and> amount = Fin (of_nat n) \<and> j + n < 2 ^ 53 \<longrightarrow>
            totalTokensBurned (stats (snd (executeCycle cfg w s))) = Fin (of_nat j + of_nat n)"
    using js_plus_of_nat[of j n] by (simp add: upd)
  have spent: "totalSolSpent (stats s) = Fin x \<and>
          \<bar>x + Math_max (js_sub b lit_0_005) lit_0_001\<bar> < 2 ^ 1023 \<longrightarrow>
            (\<exists>d. totalSolSpent (stats (snd (executeCycle cfg w s))) = Fin d \<and>
                 \<bar>d - (x + Math_max (js_sub b lit_0_005) lit_0_001)\<bar>
                   \<le> ulp (x + Math_max (js_sub b lit_0_005) lit_0_001) / 2)"
    using fl_error[of "x + Math_max (js_sub b lit_0_005) lit_0_001"]
    by (simp add: upd js_round_finite)
  show ?thesis using upd burns tokens spent by (intro conjI)
qed

theorem executeCycle_success_updates_stats_witness:
  "fst (getBalance world_success fresh_bot) = Return (js_div (number_of_u64 10000000) lit_1e9) \<and>
   \<not> js_lt (js_div (number_of_u64 10000000) lit_1e9) (MIN_SOL_BALANCE default_config) \<and>
   fst (buyTokens world_success lit_0_005 fresh_bot) = Return (BuyOk ''buy-signature'') \<and>
   fst (burnTokens world_success fresh_bot) = Return (BurnOk ''burn-signature'' (Fin 123456)) \<and>
   totalBurns (stats fresh_bot) = Fin 0 \<and> totalTokensBurned (stats fresh_bot) = Fin 0 \<and>
   totalSolSpent (stats fresh_bot) = Fin 0 \<and>
   stats (snd (executeCycle default_config world_success fresh_bot)) =
     \<lparr>totalBurns = Fin 1, totalTokensBurned = Fin 123456, totalSolSpent = Fin lit_0_005,
      startTime = 1700000000000, lastBurnTime = Some 1700000060000\<rparr>"
proof -
  have bal: "fst (getBalance world_success fresh_bot) = Return (js_div (number_of_u64 10000000) lit_1e9)"
    by (rule world_success_runs)
  have high: "\<not> js_lt (js_div (number_of_u64 10000000) lit_1e9) (MIN_SOL_BALANCE default_config)"
    by (rule world_success_runs)
  have buy: "fst (buyTokens world_success lit_0_005 fresh_bot) = Return (BuyOk ''buy-signature'')"
    by (rule world_success_runs)
  have burn: "fst (burnTokens world_success fresh_bot) = Return (BurnOk ''burn-signature'' (Fin 123456))"
    by (rule world_success_runs)
  have one: "js_plus (Fin 0) (Fin 1) = Fin 1" using js_plus_of_nat[of 0 1] by simp
  have tok: "js_plus (Fin 0) (Fin 123456) = Fin 123456" using js_plus_of_nat[of 0 123456] by simp
  have sol: "js_plus (Fin 0) (Fin lit_0_005) = Fin lit_0_005"
    using js_plus_0_lit_0_005 by (simp add: zero_jsnum_def)
  have "stats (snd (executeCycle default_config world_success fresh_bot)) =
          \<lparr>totalBurns = Fin 1, totalTokensBurned = Fin 123456, totalSolSpent = Fin lit_0_005,
           startTime = 1700000000000, lastBurnTime = Some 1700000060000\<rparr>"
    using executeCycle_success_updates_stats[OF bal high buy burn,
        where s = fresh_bot and k = 0 and j = 0 and n = 123456 and x = 0]
    by (simp add: fresh_bot_def world_success_def zero_jsnum_def one tok
          world_success_runs(5) sol del: js_plus.simps)
  then show ?thesis using bal high buy burn by (simp add: fresh_bot_def zero_jsnum_def)
qed

text \<open>
  Claim C5. When the balance \<open>b\<close> passes the minimum check, \<open>buyTokens\<close> is called once,
  with \<open>Math.max(b - 0.005, 0.001)\<close>, and that amount is what the request to the trading
  endpoint carries. The witness is the scenario of 0.01 SOL against the minimum 0.005:
  the amount is 0.005.
\<close>

theorem executeCycle_spend_amount:
  assumes "fst (getBalance w s1) = Return b"
      and "\<not> js_lt b (MIN_SOL_BALANCE cfg)"
  shows "filter is_buy (events_of (executeCycle cfg w) s) =
           [Invoked (M_buyTokens (Math_max (js_sub b lit_0_005) lit_0_001)),
            External (Fetch_trade_local (Math_max (js_sub b lit_0_005) lit_0_001))]"
proof -
  have "post (executeCycle cfg w) s
          (\<lambda>c s'. filter is_buy (drop (length (trace s)) (trace s')) =
           [Invoked (M_buyTokens (Math_max (js_sub b lit_0_005) lit_0_001)),
            External (Fetch_trade_local (Math_max (js_sub b lit_0_005) lit_0_001))])"
    using assms
    unfolding getBalance_Return
    by (elim disjE exE conjE) (simp_all add: cycle_steps no_message buyAmount_not_le_0)
  then show ?thesis
    by (rule post_events[where P = "\<lambda>c st evs. filter is_buy evs =
           [Invoked (M_buyTokens (Math_max (js_sub b lit_0_005) lit_0_001)),
            External (Fetch_trade_local (Math_max (js_sub b lit_0_005) lit_0_001))]"])
qed

theorem executeCycle_spend_amount_witness:
  "fst (getBalance world_success fresh_bot) = Return (js_div (number_of_u64 10000000) lit_1e9) \<and>
   \<not> js_lt (js_div (number_of_u64 10000000) lit_1e9) (MIN_SOL_BALANCE default_config) \<and>
   filter is_buy (events_of (executeCycle default_config world_success) fresh_bot) =
     [Invoked (M_buyTokens lit_0_005), External (Fetch_trade_local lit_0_005)]"
proof -
  have bal: "fst (getBalance world_success fresh_bot) = Return (js_div (number_of_u64 10000000) lit_1e9)"
    by (simp add: getBalance_Return sample_worlds)
  have high: "\<not> js_lt (js_div (number_of_u64 10000000) lit_1e9) (MIN_SOL_BALANCE default_config)"
    by (simp add: default_config_def balance_0_01 lit_0_005_value)
  have amount: "Math_max (js_sub (js_div (number_of_u64 10000000) lit_1e9) lit_0_005) lit_0_001 = lit_0_005"
    by (simp add: balance_0_01 js_sub_0_01 Math_max_def)
       (simp add: lit_0_005_value lit_0_001_value)
  show ?thesis
    using bal high executeCycle_spend_amount[OF bal high, of fresh_bot] by (simp add: amount)
qed




text \<open>
  Claim C7. If the derivation of the token account address or the balance query throws,
  \<open>getTokenBalance\<close> returns 0 and throws nothing. If the token balance is 0,
  \<open>burnTokens\<close> returns the failure result \<open>{ success: false }\<close> right after logging
  "No tokens to burn": no instruction is built, no blockhash fetched, nothing signed,
  sent or confirmed.
\<close>

theorem no_tokens_is_a_failure_result:
  "(getAssociatedTokenAddress w = Inl e \<or> rpc_getTokenAccountBalance w = Inl e \<longrightarrow>
      fst (getTokenBalance w s) = Return 0) \<and>
   (fst (getTokenBalance w s1) = Return 0 \<longrightarrow>
      fst (burnTokens w s) = Return (BurnFail None) \<and>
      filter is_transaction_step (events_of (burnTokens w) s) = [] \<and>
      last (events_of (burnTokens w) s) = Logged Error NoTokensToBurn)"
proof -
  have query: "getAssociatedTokenAddress w = Inl e \<or> rpc_getTokenAccountBalance w = Inl e \<longrightarrow>
      fst (getTokenBalance w s) = Return 0"
    unfolding getTokenBalance_Return by auto
  have burn: "fst (getTokenBalance w s1) = Return 0 \<longrightarrow>
      fst (burnTokens w s) = Return (BurnFail None) \<and>
      filter is_transaction_step (events_of (burnTokens w) s) = [] \<and>
      last (events_of (burnTokens w) s) = Logged Error NoTokensToBurn"
  proof
    assume zero: "fst (getTokenBalance w s1) = Return 0"
    have "post (burnTokens w) s
            (\<lambda>c s'. c = Return (BurnFail None) \<and>
               filter is_transaction_step (drop (length (trace s)) (trace s')) = [] \<and>
               last (drop (length (trace s)) (trace s')) = Logged Error NoTokensToBurn)"
      using zero unfolding getTokenBalance_Return
      by (elim disjE exE conjE) (simp_all add: burn_steps)
    then show "fst (burnTokens w s) = Return (BurnFail None) \<and>
        filter is_transaction_step (events_of (burnTokens w) s) = [] \<and>
        last (events_of (burnTokens w) s) = Logged Error NoTokensToBurn"
      by (rule post_events[where P = "\<lambda>c st evs. c = Return (BurnFail None) \<and>
               filter is_transaction_step evs = [] \<and> last evs = Logged Error NoTokensToBurn"])
  qed
  show ?thesis using query burn by (rule conjI)
qed

theorem no_tokens_is_a_failure_result_witness:
  "rpc_getTokenAccountBalance world_no_token_account = Inl (ErrorObj ''could not find account'') \<and>
   fst (getTokenBalance world_no_token_account fresh_bot) = Return 0 \<and>
   fst (burnTokens world_no_token_account fresh_bot) = Return (BurnFail None) \<and>
   filter is_transaction_step (events_of (burnTokens world_no_token_account) fresh_bot) = []"
proof -
  have q: "rpc_getTokenAccountBalance world_no_token_account = Inl (ErrorObj ''could not find account'')"
    by (simp add: sample_worlds)
  show ?thesis
    using q no_tokens_is_a_failure_result[of world_no_token_account "ErrorObj ''could not find account''" fresh_bot fresh_bot]
    by simp
qed

text \<open>
  Claim C8 says that a secret key whose decoding throws ends the process with status 1
  before any chain connection is constructed. With both variables set, a working
  \<open>Connection\<close> constructor and a key that is not base58, the process does exit with
  status 1, but the first thing that has happened by then is \<open>new Connection\<close>: the
  constructor creates \<open>this.connection\<close> before it calls \<open>loadWallet\<close>.
\<close>

theorem bad_key_connection_constructed_first:
  "bs58_decode startup_bad_key = Inl (ErrorObj ''Non-base58 character'') \<and>
   fst (main_startup startup_bad_key fresh_bot) = Exit 1 \<and>
   events_of (main_startup startup_bad_key) fresh_bot =
     [External New_Connection, External Bs58_decode, Raised (ErrorObj ''Non-base58 character''),
      ConsoleError, ConsoleError]"
proof -
  have "post (main_startup startup_bad_key) fresh_bot
          (\<lambda>c s'. c = Exit 1 \<and> drop (length (trace fresh_bot)) (trace s') =
             [External New_Connection, External Bs58_decode,
              Raised (ErrorObj ''Non-base58 character''), ConsoleError, ConsoleError])"
    by (simp add: main_startup_def validateConfig_def constructor_def loadWallet_def missing_def
          post_simps startup_bad_key_def)
  then have "fst (main_startup startup_bad_key fresh_bot) = Exit 1 \<and>
      events_of (main_startup startup_bad_key) fresh_bot =
        [External New_Connection, External Bs58_decode,
         Raised (ErrorObj ''Non-base58 character''), ConsoleError, ConsoleError]"
    by (rule post_events[where P = "\<lambda>c st evs. c = Exit 1 \<and> evs =
        [External New_Connection, External Bs58_decode,
         Raised (ErrorObj ''Non-base58 character''), ConsoleError, ConsoleError]"])
  then show ?thesis by (simp add: startup_bad_key_def)
qed

text \<open>
  Claim C8, amended. If both required variables are set, \<open>new Connection\<close> returns and
  the decoding of the secret key throws, the process exits with status 1 after the
  connection object has been constructed and before anything else happens: no request is
  sent through the connection, the mint address is not parsed, the statistics are not
  initialised.
\<close>

theorem bad_key_exits_after_connection:
  assumes "\<not> missing (env_CREATOR_PRIVATE_KEY env)"
      and "\<not> missing (env_TOKEN_MINT_ADDRESS env)"
      and "new_Connection env = Inr ()"
      and "bs58_decode env = Inl e"
  shows "fst (main_startup env s) = Exit 1 \<and>
         events_of (main_startup env) s =
           [External New_Connection, External Bs58_decode, Raised e, ConsoleError, ConsoleError] \<and>
         stats (snd (main_startup env s)) = stats s"
proof -
  have "post (main_startup env) s
          (\<lambda>c s'. c = Exit 1 \<and> drop (length (trace s)) (trace s') =
             [External New_Connection, External Bs58_decode, Raised e, ConsoleError, ConsoleError] \<and>
             stats s' = stats s)"
    using assms
    by (simp add: main_startup_def validateConfig_def constructor_def loadWallet_def post_simps)
  then show ?thesis
    by (rule post_events[where P = "\<lambda>c st evs. c = Exit 1 \<and> evs =
        [External New_Connection, External Bs58_decode, Raised e, ConsoleError, ConsoleError] \<and>
        st = stats s"])
qed

theorem bad_key_exits_after_connection_witness:
  "\<not> missing (env_CREATOR_PRIVATE_KEY startup_bad_key) \<and>
   \<not> missing (env_TOKEN_MINT_ADDRESS startup_bad_key) \<and>
   new_Connection startup_bad_key = Inr () \<and>
   bs58_decode startup_bad_key = Inl (ErrorObj ''Non-base58 character'') \<and>
   fst (main_startup startup_bad_key fresh_bot) = Exit 1 \<and>
   stats (snd (main_startup startup_bad_key fresh_bot)) = stats fresh_bot"
proof -
  have k: "\<not> missing (env_CREATOR_PRIVATE_KEY startup_bad_key)"
    and m: "\<not> missing (env_TOKEN_MINT_ADDRESS startup_bad_key)"
    and c: "new_Connection startup_bad_key = Inr ()"
    and d: "bs58_decode startup_bad_key = Inl (ErrorObj ''Non-base58 character'')"
    by (simp_all add: startup_bad_key_def missing_def)
  show ?thesis using k m c d bad_key_exits_after_connection[OF k m c d, of fresh_bot] by simp
qed

text \<open>
  Claim C9 says that every error raised inside a cycle is caught and logged within
  \<open>executeCycle\<close>. In \<open>world_rpc_timeout\<close> the buy succeeds and the token balance query
  then throws "rpc timeout". The \<open>catch\<close> block of \<open>getTokenBalance\<close> returns 0 and
  writes nothing: the only error-level lines of the cycle are "No tokens to burn" and the
  line about the failed burn, and the error itself is never logged. In \<open>world_nullish\<close>
  the request to the trading endpoint rejects with \<open>undefined\<close>. The \<open>catch\<close> block of
  \<open>buyTokens\<close> throws a \<open>TypeError\<close> when it reads \<open>error.message\<close>, and the only
  error-level line of the cycle is the one that \<open>executeCycle\<close> writes for this
  \<open>TypeError\<close>.
\<close>

theorem cycle_errors_not_logged:
  "rpc_getTokenAccountBalance world_rpc_timeout = Inl (ErrorObj ''rpc timeout'') \<and>
   fst (executeCycle default_config world_rpc_timeout fresh_bot) = Return () \<and>
   Raised (ErrorObj ''rpc timeout'')
     \<in> set (events_of (executeCycle default_config world_rpc_timeout) fresh_bot) \<and>
   filter is_error_log (events_of (executeCycle default_config world_rpc_timeout) fresh_bot) =
     [Logged Error NoTokensToBurn, Logged Error CriticalBoughtNotBurned] \<and>
   fetch world_nullish = Inl Nullish \<and>
   Raised Nullish \<in> set (events_of (executeCycle default_config world_nullish) fresh_bot) \<and>
   filter is_error_log (events_of (executeCycle default_config world_nullish) fresh_bot) =
     [Logged Error (CriticalError ''Cannot read properties of null'')]"
proof -
  have "post (executeCycle default_config world_rpc_timeout) fresh_bot
          (\<lambda>c s'. c = Return () \<and>
             Raised (ErrorObj ''rpc timeout'') \<in> set (drop (length (trace fresh_bot)) (trace s')) \<and>
             filter is_error_log (drop (length (trace fresh_bot)) (trace s')) =
               [Logged Error NoTokensToBurn, Logged Error CriticalBoughtNotBurned])"
    by (simp add: cycle_defs post_simps sample_worlds default_config_def balance_0_01
          lit_0_005_value buyAmount_not_le_0)
  then have timeout: "fst (executeCycle default_config world_rpc_timeout fresh_bot) = Return () \<and>
      Raised (ErrorObj ''rpc timeout'')
        \<in> set (events_of (executeCycle default_config world_rpc_timeout) fresh_bot) \<and>
      filter is_error_log (events_of (executeCycle default_config world_rpc_timeout) fresh_bot) =
        [Logged Error NoTokensToBurn, Logged Error CriticalBoughtNotBurned]"
    by (rule post_events[where P = "\<lambda>c st evs. c = Return () \<and>
          Raised (ErrorObj ''rpc timeout'') \<in> set evs \<and>
          filter is_error_log evs = [Logged Error NoTokensToBurn, Logged Error CriticalBoughtNotBurned]"])
  have "post (executeCycle default_config world_nullish) fresh_bot
          (\<lambda>c s'. Raised Nullish \<in> set (drop (length (trace fresh_bot)) (trace s')) \<and>
             filter is_error_log (drop (length (trace fresh_bot)) (trace s')) =
               [Logged Error (CriticalError ''Cannot read properties of null'')])"
    by (simp add: cycle_defs post_simps sample_worlds default_config_def balance_0_01
          lit_0_005_value buyAmount_not_le_0 TypeError_not_Nullish message_TypeError)
  then have nullish: "Raised Nullish \<in> set (events_of (executeCycle default_config world_nullish) fresh_bot) \<and>
      filter is_error_log (events_of (executeCycle default_config world_nullish) fresh_bot) =
        [Logged Error (CriticalError ''Cannot read properties of null'')]"
    by (rule post_events[where P = "\<lambda>c st evs. Raised Nullish \<in> set evs \<and>
          filter is_error_log evs = [Logged Error (CriticalError ''Cannot read properties of null'')]"])
  show ?thesis using timeout nullish by (simp add: sample_worlds)
qed

text \<open>
  Claim C9, amended. Whatever the environment does, \<open>executeCycle\<close> returns normally:
  nothing is thrown out of it and it does not exit, so a run of any number of cycles, one
  after the other, never ends by a throw. Every throw inside the cycle is caught there,
  and what follows it at once is (\<open>answered\<close>) the error-level line of a \<open>catch\<close> block
  with the message of what was thrown, with two exceptions. A throw of one of the two
  calls of \<open>getTokenBalance\<close> is caught without a line; the cycle goes on with a token
  balance of 0, to the line "No tokens to burn". And when \<open>null\<close> or \<open>undefined\<close> is
  thrown, the \<open>catch\<close> block that reads \<open>error.message\<close> throws a \<open>TypeError\<close>, and it
  is this one that is logged, by the \<open>catch\<close> block of \<open>executeCycle\<close>.
\<close>

theorem executeCycle_never_throws:
  "fst (executeCycle cfg w s) = Return () \<and>
   throws_answered None (events_of (executeCycle cfg w) s) \<and>
   fst (run_cycles cfg ws s) = Return ()"
proof -
  have "post (executeCycle cfg w) s
          (\<lambda>c s'. c = Return () \<and> throws_answered None (drop (length (trace s)) (trace s')))"
    by (auto simp add: cycle_steps buyAmount_not_le_0 answered_simps)
  then have "fst (executeCycle cfg w s) = Return () \<and>
      throws_answered None (events_of (executeCycle cfg w) s)"
    by (rule post_events[where P = "\<lambda>c st evs. c = Return () \<and> throws_answered None evs"])
  then show ?thesis by (simp add: run_cycles_returns)
qed

theorem executeCycle_never_throws_witness:
  "fst (executeCycle default_config world_nullish fresh_bot) = Return () \<and>
   throws_answered None (events_of (executeCycle default_config world_nullish) fresh_bot) \<and>
   fst (run_cycles default_config [world_nullish, world_rpc_timeout] fresh_bot) = Return ()"
  using executeCycle_never_throws[of default_config world_nullish fresh_bot
      "[world_nullish, world_rpc_timeout]"]
  by simp

text \<open>
  Claim C10. The branch "Not enough SOL after fee reservation" is dead: no cycle logs
  that line. The spend amount is at least the literal 0.001, which is positive; so when
  the minimum check passes, \<open>buyTokens\<close> is called. For a balance below 0.006 the amount
  is the floor 0.001 itself, which exceeds \<open>b - 0.005\<close>.
\<close>

theorem fee_abort_unreachable:
  "Logged Error NotEnoughAfterFee \<notin> set (events_of (executeCycle cfg w) s) \<and>
   0 < lit_0_001 \<and> lit_0_001 \<le> Math_max (js_sub b lit_0_005) lit_0_001 \<and>
   (fst (getBalance w s1) = Return b \<and> \<not> js_lt b (MIN_SOL_BALANCE cfg) \<longrightarrow>
      Invoked (M_buyTokens (Math_max (js_sub b lit_0_005) lit_0_001))
        \<in> set (events_of (executeCycle cfg w) s)) \<and>
   (b < lit_0_006 \<longrightarrow>
      Math_max (js_sub b lit_0_005) lit_0_001 = lit_0_001 \<and> b - lit_0_005 < lit_0_001)"
proof -
  have dead: "Logged Error NotEnoughAfterFee \<notin> set (events_of (executeCycle cfg w) s)"
  proof -
    have "post (executeCycle cfg w) s
            (\<lambda>c s'. Logged Error NotEnoughAfterFee \<notin> set (drop (length (trace s)) (trace s')))"
      by (simp add: cycle_steps buyAmount_not_le_0)
    then show ?thesis
      by (rule post_events[where P = "\<lambda>c st evs. Logged Error NotEnoughAfterFee \<notin> set evs"])
  qed
  have bought: "fst (getBalance w s1) = Return b \<and> \<not> js_lt b (MIN_SOL_BALANCE cfg) \<longrightarrow>
      Invoked (M_buyTokens (Math_max (js_sub b lit_0_005) lit_0_001))
        \<in> set (events_of (executeCycle cfg w) s)"
  proof
    assume h: "fst (getBalance w s1) = Return b \<and> \<not> js_lt b (MIN_SOL_BALANCE cfg)"
    have "post (executeCycle cfg w) s
            (\<lambda>c s'. Invoked (M_buyTokens (Math_max (js_sub b lit_0_005) lit_0_001))
                       \<in> set (drop (length (trace s)) (trace s')))"
      using h unfolding getBalance_Return
      by (elim disjE exE conjE) (simp_all add: cycle_steps no_message buyAmount_not_le_0)
    then show "Invoked (M_buyTokens (Math_max (js_sub b lit_0_005) lit_0_001))
        \<in> set (events_of (executeCycle cfg w) s)"
      by (rule post_events[where P = "\<lambda>c st evs.
            Invoked (M_buyTokens (Math_max (js_sub b lit_0_005) lit_0_001)) \<in> set evs"])
  qed
  have floor: "lit_0_001 \<le> Math_max (js_sub b lit_0_005) lit_0_001"
    by (simp add: Math_max_def)
  show ?thesis
    using dead bought floor lit_0_001_pos spend_floor[of b] by blast
qed

theorem fee_abort_unreachable_witness:
  "fst (getBalance world_small_balance fresh_bot) = Return (js_div (number_of_u64 5500000) lit_1e9) \<and>
   \<not> js_lt (js_div (number_of_u64 5500000) lit_1e9) (MIN_SOL_BALANCE default_config) \<and>
   js_div (number_of_u64 5500000) lit_1e9 < lit_0_006 \<and>
   Invoked (M_buyTokens lit_0_001)
     \<in> set (events_of (executeCycle default_config world_small_balance) fresh_bot) \<and>
   js_div (number_of_u64 5500000) lit_1e9 - lit_0_005 < lit_0_001"
proof -
  have bal: "fst (getBalance world_small_balance fresh_bot) = Return (js_div (number_of_u64 5500000) lit_1e9)"
    by (simp add: getBalance_Return sample_worlds)
  have high: "\<not> js_lt (js_div (number_of_u64 5500000) lit_1e9) (MIN_SOL_BALANCE default_config)"
    by (simp add: default_config_def balance_0_0055 lit_0_005_value)
  have small: "js_div (number_of_u64 5500000) lit_1e9 < lit_0_006"
    by (simp add: balance_0_0055 lit_0_006_value)
  show ?thesis
    using bal high small
      fee_abort_unreachable[of default_config world_small_balance fresh_bot
             "js_div (number_of_u64 5500000) lit_1e9" fresh_bot]
    by auto
qed

end
